theory Spec2Isabelle
  imports Complex_Main "HOL-Library.Sublist" "HOL-Library.Log_Nat"
begin

section \<open>JavaScript values\<close>

text \<open>
  The SDK is untyped JavaScript: a voucher, a parsed XML response and a parsed result are
  all plain objects. They are modelled by one datatype of values. A string is a list of
  characters with codes below 256; an object is an association list in insertion order,
  looked up by its first binding. A number is NaN, an infinity or a rational: the value of
  a finite IEEE-754 double, to which every arithmetic result is rounded (\<open>fl\<close> below).
  The two zeros are one value: \<open>===\<close>, \<open>>\<close>, \<open>Math.abs\<close> and the conversion to a
  string, which is all this code does with a number, do not tell them apart.
\<close>

datatype jsnum = NaN | PInf | NInf | Fin rat

datatype jsval =
    JUndefined
  | JNull
  | JBool bool
  | JNum jsnum
  | JStr string
  | JArr "jsval list"
  | JObj "(string \<times> jsval) list"

text \<open>Errors thrown by the code: \<open>new Error(msg)\<close>, and the engine's TypeError on a
  property read from \<open>undefined\<close> or \<open>null\<close>.\<close>

datatype err = Error string | TypeError string

fun message :: "err \<Rightarrow> string" where
  "message (Error m) = m"
| "message (TypeError m) = m"

definition bind_err :: "err + 'a \<Rightarrow> ('a \<Rightarrow> err + 'b) \<Rightarrow> err + 'b" where
  "bind_err r f = (case r of Inl e \<Rightarrow> Inl e | Inr x \<Rightarrow> f x)"

fun mapM_err :: "('a \<Rightarrow> err + 'b) \<Rightarrow> 'a list \<Rightarrow> err + 'b list" where
  "mapM_err f [] = Inr []"
| "mapM_err f (x # xs) =
     bind_err (f x) (\<lambda>y. bind_err (mapM_err f xs) (\<lambda>ys. Inr (y # ys)))"

subsection \<open>Numbers\<close>

text \<open>
  Rounding to a double. \<open>rne\<close> rounds a rational to the nearest integer, a tie to the
  even one. \<open>ulp_exponent n e x\<close> searches downwards from \<open>e\<close>, in at most \<open>n\<close> steps,
  for the exponent of the last place of \<open>x\<close>: the first \<open>e\<close> with \<open>2 ^ (e + 52) \<le> x\<close>.
  From \<open>971\<close> (the last place of the largest doubles) \<open>2045\<close> steps end at \<open>-1074\<close>, the
  last place of the subnormal numbers. \<open>fl x\<close> is \<open>x\<close> rounded to a multiple of its
  last place, and an infinity when that reaches \<open>2 ^ 1024\<close>.
\<close>

definition rne :: "rat \<Rightarrow> int" where
  "rne x =
     (let n = \<lfloor>x\<rfloor>; r = x - of_int n
      in if r < 1 / 2 then n else if 1 / 2 < r then n + 1 else if even n then n else n + 1)"

fun ulp_exponent :: "nat \<Rightarrow> int \<Rightarrow> rat \<Rightarrow> int" where
  "ulp_exponent 0 e x = e"
| "ulp_exponent (Suc n) e x = (if 2 powi (e + 52) \<le> x then e else ulp_exponent n (e - 1) x)"

definition overflow_bound :: rat where
  "overflow_bound = 2 ^ 1024"

definition overflow :: "rat \<Rightarrow> jsnum" where
  "overflow r =
     (if overflow_bound \<le> r then PInf else if r \<le> - overflow_bound then NInf else Fin r)"

definition fl :: "rat \<Rightarrow> jsnum" where
  "fl x =
     (let e = ulp_exponent 2045 971 \<bar>x\<bar>
      in overflow (of_int (rne (x / 2 powi e)) * 2 powi e))"

text \<open>\<open>x + y\<close> on numbers.\<close>

fun js_add :: "jsnum \<Rightarrow> jsnum \<Rightarrow> jsnum" where
  "js_add NaN _ = NaN"
| "js_add _ NaN = NaN"
| "js_add PInf NInf = NaN"
| "js_add NInf PInf = NaN"
| "js_add PInf _ = PInf"
| "js_add _ PInf = PInf"
| "js_add NInf _ = NInf"
| "js_add _ NInf = NInf"
| "js_add (Fin a) (Fin b) = fl (a + b)"

fun js_neg :: "jsnum \<Rightarrow> jsnum" where
  "js_neg NaN = NaN"
| "js_neg PInf = NInf"
| "js_neg NInf = PInf"
| "js_neg (Fin a) = Fin (- a)"

text \<open>\<open>Math.abs\<close>.\<close>

fun js_abs :: "jsnum \<Rightarrow> jsnum" where
  "js_abs NaN = NaN"
| "js_abs PInf = PInf"
| "js_abs NInf = PInf"
| "js_abs (Fin a) = Fin \<bar>a\<bar>"

text \<open>\<open>x > y\<close> on numbers: false as soon as one side is NaN.\<close>

fun js_gt :: "jsnum \<Rightarrow> jsnum \<Rightarrow> bool" where
  "js_gt NaN _ = False"
| "js_gt _ NaN = False"
| "js_gt PInf PInf = False"
| "js_gt PInf _ = True"
| "js_gt _ PInf = False"
| "js_gt NInf _ = False"
| "js_gt _ NInf = True"
| "js_gt (Fin a) (Fin b) = (a > b)"

definition js_lt :: "jsnum \<Rightarrow> jsnum \<Rightarrow> bool" where
  "js_lt x y = js_gt y x"

text \<open>\<open>x * s\<close> for the two factors the code uses, \<open>1\<close> and \<open>-1\<close>.\<close>

definition js_times_sign :: "jsnum \<Rightarrow> bool \<Rightarrow> jsnum" where
  "js_times_sign x negative = (if negative then js_neg x else x)"

subsection \<open>Truthiness, strict equality, property access\<close>

text \<open>The falsy values are \<open>undefined\<close>, \<open>null\<close>, \<open>false\<close>, \<open>0\<close>, \<open>NaN\<close>
  and the empty string.\<close>

fun truthy :: "jsval \<Rightarrow> bool" where
  "truthy JUndefined = False"
| "truthy JNull = False"
| "truthy (JBool b) = b"
| "truthy (JNum NaN) = False"
| "truthy (JNum (Fin r)) = (r \<noteq> 0)"
| "truthy (JNum _) = True"
| "truthy (JStr s) = (s \<noteq> [])"
| "truthy (JArr _) = True"
| "truthy (JObj _) = True"

text \<open>\<open>a || b\<close> and \<open>a && b\<close> (both sides here are side-effect free).\<close>

definition js_or :: "jsval \<Rightarrow> jsval \<Rightarrow> jsval" where
  "js_or a b = (if truthy a then a else b)"

definition js_and :: "jsval \<Rightarrow> jsval \<Rightarrow> jsval" where
  "js_and a b = (if truthy a then b else a)"

text \<open>\<open>v === 'text'\<close> against a string literal.\<close>

definition eq_str :: "jsval \<Rightarrow> string \<Rightarrow> bool" where
  "eq_str v s = (v = JStr s)"

text \<open>\<open>typeof v === 'number'\<close> and \<open>Array.isArray(v)\<close>.\<close>

fun is_number :: "jsval \<Rightarrow> bool" where
  "is_number (JNum _) = True"
| "is_number _ = False"

fun isArray :: "jsval \<Rightarrow> bool" where
  "isArray (JArr _) = True"
| "isArray _ = False"

text \<open>
  \<open>base.key\<close> for the keys this code reads (field and tag names; none of them is an
  own or inherited property of a string, number, boolean or array). Reading from
  \<open>undefined\<close> or \<open>null\<close> throws; the message is the one V8 prints.
\<close>

definition cannot_read :: "string \<Rightarrow> string \<Rightarrow> err" where
  \<open>cannot_read what key =
     TypeError (''Cannot read properties of '' @ what @ '' (reading '' @ [CHR 0x27] @ key
       @ [CHR 0x27] @ '')'')\<close>

fun get :: "jsval \<Rightarrow> string \<Rightarrow> err + jsval" where
  "get JUndefined k = Inl (cannot_read ''undefined'' k)"
| "get JNull k = Inl (cannot_read ''null'' k)"
| "get (JObj kvs) k = Inr (case map_of kvs k of Some v \<Rightarrow> v | None \<Rightarrow> JUndefined)"
| "get _ k = Inr JUndefined"

section \<open>Strings\<close>

text \<open>Decimal digits of a natural number and of an integer: what \<open>Number.prototype.toString\<close>
  returns for an integer below \<open>10^21\<close> in magnitude.\<close>

definition digit_char :: "nat \<Rightarrow> char" where
  "digit_char n = char_of (48 + n)"

fun showNat :: "nat \<Rightarrow> string" where
  "showNat n = (if n < 10 then [digit_char n] else showNat (n div 10) @ [digit_char (n mod 10)])"

declare showNat.simps [simp del]

definition showInt :: "int \<Rightarrow> string" where
  "showInt i = (if i < 0 then CHR ''-'' # showNat (nat (- i)) else showNat (nat i))"

text \<open>\<open>Array.prototype.join\<close> and \<open>String.prototype.padStart\<close>.\<close>

fun join :: "string \<Rightarrow> string list \<Rightarrow> string" where
  "join sep [] = []"
| "join sep [x] = x"
| "join sep (x # y # ys) = x @ sep @ join sep (y # ys)"

definition padStart :: "nat \<Rightarrow> char \<Rightarrow> string \<Rightarrow> string" where
  "padStart n c s = replicate (n - length s) c @ s"

text \<open>
  The string a template literal interpolates for a value, \<open>`${v}`\<close>. How the engine prints
  a number is a parameter \<open>ns\<close> (\<open>Number::toString\<close>); an array prints its elements
  joined by commas, with \<open>undefined\<close> and \<open>null\<close> elements empty.
\<close>

fun toStringJS :: "(jsnum \<Rightarrow> string) \<Rightarrow> jsval \<Rightarrow> string" where
  "toStringJS ns JUndefined = ''undefined''"
| "toStringJS ns JNull = ''null''"
| "toStringJS ns (JBool b) = (if b then ''true'' else ''false'')"
| "toStringJS ns (JNum n) = ns n"
| "toStringJS ns (JStr s) = s"
| "toStringJS ns (JArr vs) =
     join '','' (map (\<lambda>v. if v = JUndefined \<or> v = JNull then [] else toStringJS ns v) vs)"
| "toStringJS ns (JObj kvs) = ''[object Object]''"

text \<open>\<open>s.replace(/c/g, r)\<close> for a one-character pattern: every occurrence is replaced,
  scanning left to right.\<close>

definition replaceAllChar :: "char \<Rightarrow> string \<Rightarrow> string \<Rightarrow> string" where
  "replaceAllChar c r s = concat (map (\<lambda>x. if x = c then r else [x]) s)"

text \<open>\<open>s.replace(pat, r)\<close> for a string pattern: only the first occurrence is replaced.\<close>

fun replaceFirst :: "string \<Rightarrow> string \<Rightarrow> string \<Rightarrow> string" where
  "replaceFirst pat r [] = (if pat = [] then r else [])"
| "replaceFirst pat r (c # cs) =
     (if prefix pat (c # cs) then r @ drop (length pat) (c # cs)
      else c # replaceFirst pat r cs)"

section \<open>XmlBuilder: shared helpers\<close>

text \<open>\<open>XmlBuilder.escapeXml\<close> (the same text in both copies of the class).\<close>

fun escapeXml :: "jsval \<Rightarrow> jsval" where
  \<open>escapeXml (JStr text) =
     JStr (replaceAllChar (CHR 0x27) ''&apos;''
          (replaceAllChar (CHR 0x22) ''&quot;''
          (replaceAllChar (CHR ''>'') ''&gt;''
          (replaceAllChar (CHR ''<'') ''&lt;''
          (replaceAllChar (CHR ''&'') ''&amp;'' text)))))\<close>
| "escapeXml v = v"

text \<open>What the single left-to-right pass described by the specification does to one
  character.\<close>

definition escape_char :: "char \<Rightarrow> string" where
  \<open>escape_char c =
     (if c = CHR ''&'' then ''&amp;''
      else if c = CHR ''<'' then ''&lt;''
      else if c = CHR ''>'' then ''&gt;''
      else if c = CHR 0x22 then ''&quot;''
      else if c = CHR 0x27 then ''&apos;''
      else [c])\<close>

text \<open>
  The standard XML unescaping of the five predefined entities, as the XML parser on the
  receiving side performs it: one scan, each entity reference replaced by its character.
\<close>

fun unescapeXml :: "string \<Rightarrow> string" where
  "unescapeXml [] = []"
| "unescapeXml (c # cs) =
     (if c = CHR ''&'' then
        (if prefix ''amp;'' cs then CHR ''&'' # unescapeXml (drop 4 cs)
         else if prefix ''lt;'' cs then CHR ''<'' # unescapeXml (drop 3 cs)
         else if prefix ''gt;'' cs then CHR ''>'' # unescapeXml (drop 3 cs)
         else if prefix ''quot;'' cs then CHR 0x22 # unescapeXml (drop 5 cs)
         else if prefix ''apos;'' cs then CHR 0x27 # unescapeXml (drop 5 cs)
         else c # unescapeXml cs)
      else c # unescapeXml cs)"

text \<open>
  A \<open>Date\<close> object, read through \<open>getFullYear()\<close>, \<open>getMonth()\<close> (0 to 11) and
  \<open>getDate()\<close> in local time; \<open>new Date(x)\<close> of something unparsable is the invalid
  date, whose getters return NaN.
\<close>

datatype js_date = InvalidDate | LocalDate int nat nat

definition months :: "string list" where
  "months = [''Jan'', ''Feb'', ''Mar'', ''Apr'', ''May'', ''Jun'',
             ''Jul'', ''Aug'', ''Sep'', ''Oct'', ''Nov'', ''Dec'']"

text \<open>The body of \<open>XmlBuilder.formatDate\<close> after \<open>const dateObj = new Date(date)\<close>.\<close>

fun formatDateObj :: "js_date \<Rightarrow> string" where
  "formatDateObj InvalidDate =
     padStart 2 (CHR ''0'') ''NaN'' @ ''-'' @ ''undefined'' @ ''-'' @ ''NaN''"
| "formatDateObj (LocalDate fullYear month date) =
     padStart 2 (CHR ''0'') (showNat date) @ ''-''
       @ (if month < length months then months ! month else ''undefined'') @ ''-''
       @ showInt fullYear"

text \<open>The Gregorian calendar: the dates a \<open>Date\<close> object can hold.\<close>

definition leap_year :: "int \<Rightarrow> bool" where
  "leap_year y = (y mod 4 = 0 \<and> (y mod 100 \<noteq> 0 \<or> y mod 400 = 0))"

definition days_in_month :: "int \<Rightarrow> nat \<Rightarrow> nat" where
  "days_in_month y m =
     (if m = 1 then (if leap_year y then 29 else 28)
      else if m \<in> {3, 5, 8, 10} then 30 else 31)"

definition valid_date :: "int \<Rightarrow> nat \<Rightarrow> nat \<Rightarrow> bool" where
  "valid_date y m d = (m < 12 \<and> 1 \<le> d \<and> d \<le> days_in_month y m)"

section \<open>XmlBuilder\<close>

text \<open>
  The class exists in two copies. The one in \<^verbatim>\<open>src/src/utils/XmlBuilder.js\<close> is modelled
  under the source's names. The copy that follows the connector in
  \<^verbatim>\<open>src/src/connector/TallyConnector.js\<close> differs in \<open>buildImportRequest\<close> and
  \<open>buildLedgerXml\<close> (modelled with the suffix \<open>2\<close>) and adds further builders; the
  other functions are the same text in both copies. The ledger and stock item services call
  builders that only the second copy has, so they are modelled against it; the voucher
  service shares its file with the first copy.
\<close>

definition buildEnvelope :: "string \<Rightarrow> string \<Rightarrow> string" where
  \<open>buildEnvelope requestType bodyContent =
     ''<?xml version="1.0" encoding="UTF-8"?>\<newline>''
       @ ''<ENVELOPE>\<newline>''
       @ ''    <HEADER>\<newline>''
       @ ''        <TALLYREQUEST>'' @ requestType @ ''</TALLYREQUEST>\<newline>''
       @ ''    </HEADER>\<newline>''
       @ ''    <BODY>\<newline>''
       @ ''        '' @ bodyContent @ ''\<newline>''
       @ ''    </BODY>\<newline>''
       @ ''</ENVELOPE>''\<close>

text \<open>One child tag per filter, in the order of \<open>Object.entries\<close>; the lines are joined
  by the two characters backslash and \<open>n\<close>: the source's separator is an escaped
  backslash followed by \<open>n\<close>, not a line feed.\<close>

definition filterLine :: "(jsnum \<Rightarrow> string) \<Rightarrow> string \<times> jsval \<Rightarrow> string" where
  \<open>filterLine ns kv =
     ''                <'' @ fst kv @ ''>'' @ toStringJS ns (escapeXml (snd kv)) @ ''</''
       @ fst kv @ ''>''\<close>

definition buildExportRequest ::
  "(jsnum \<Rightarrow> string) \<Rightarrow> string \<Rightarrow> (string \<times> jsval) list \<Rightarrow> string" where
  \<open>buildExportRequest ns reportName filters =
    (let filterXml = (if length filters > 0
                      then join [CHR 0x5C, CHR ''n''] (map (filterLine ns) filters) else []);
         bodyContent =
           ''<EXPORTDATA>\<newline>''
             @ ''            <REQUESTDESC>\<newline>''
             @ ''                <REPORTNAME>'' @ reportName @ ''</REPORTNAME>\<newline>''
             @ filterXml @ ''\<newline>''
             @ ''            </REQUESTDESC>\<newline>''
             @ ''        </EXPORTDATA>''
     in buildEnvelope ''Export Data'' bodyContent)\<close>

definition buildImportRequest :: "string \<Rightarrow> string" where
  \<open>buildImportRequest dataXml =
    (let bodyContent =
           ''<IMPORTDATA>\<newline>''
             @ ''            '' @ dataXml @ ''\<newline>''
             @ ''        </IMPORTDATA>''
     in buildEnvelope ''Import Data'' bodyContent)\<close>

text \<open>
  \<open>buildImportRequest\<close> of the second copy. \<open>options\<close> is the second argument
  (its default \<open>{}\<close> replaces \<open>undefined\<close>); \<open>env_TALLY_COMPANY\<close> is
  \<open>process.env.TALLY_COMPANY\<close>, which the function reads on its own: a string, or
  \<open>undefined\<close> when the variable is not set.
\<close>

definition buildImportRequest2 ::
  "(jsnum \<Rightarrow> string) \<Rightarrow> jsval \<Rightarrow> string \<Rightarrow> jsval \<Rightarrow> err + string" where
  \<open>buildImportRequest2 ns env_TALLY_COMPANY dataXml options =
    (let options = (if options = JUndefined then JObj [] else options) in
    bind_err (get options ''reportName'') (\<lambda>optReportName.
    bind_err (get options ''companyName'') (\<lambda>optCompanyName.
      let reportName = js_or optReportName (JStr ''All Masters'');
          companyName = js_or (js_or optCompanyName env_TALLY_COMPANY) (JStr []);
          staticVars = (if truthy companyName then
               ''\<newline>''
                 @ ''                <STATICVARIABLES>\<newline>''
                 @ ''                    <SVCURRENTCOMPANY>''
                 @ toStringJS ns (escapeXml companyName) @ ''</SVCURRENTCOMPANY>\<newline>''
                 @ ''                </STATICVARIABLES>''
             else []);
          bodyContent =
            ''<IMPORTDATA>\<newline>''
              @ ''            <REQUESTDESC>\<newline>''
              @ ''                <REPORTNAME>'' @ toStringJS ns reportName @ ''</REPORTNAME>''
              @ staticVars @ ''\<newline>''
              @ ''            </REQUESTDESC>\<newline>''
              @ ''            <REQUESTDATA>\<newline>''
              @ ''                '' @ dataXml @ ''\<newline>''
              @ ''            </REQUESTDATA>\<newline>''
              @ ''        </IMPORTDATA>''
      in Inr (buildEnvelope ''Import Data'' bodyContent))))\<close>

text \<open>
  \<open>base.key\<close> at a place where the code has just tested \<open>base\<close> truthy, or has already
  read another property of it: the read cannot throw there.
\<close>

definition field :: "jsval \<Rightarrow> string \<Rightarrow> jsval" where
  "field base k = (case get base k of Inr v \<Rightarrow> v | Inl _ \<Rightarrow> JUndefined)"

definition yesNo :: "bool \<Rightarrow> string" where
  "yesNo b = (if b then ''Yes'' else ''No'')"

text \<open>The optional \<open>openingBalanceXml\<close> block of a ledger (the same in both copies).\<close>

definition ledgerOpeningBalanceXml :: "(jsnum \<Rightarrow> string) \<Rightarrow> jsval \<Rightarrow> string" where
  \<open>ledgerOpeningBalanceXml ns openingBalance =
    (if truthy openingBalance then
       ''\<newline>''
         @ ''                <OPENINGBALANCE>''
         @ toStringJS ns (js_or (field openingBalance ''amount'') (JNum (Fin 0)))
         @ ''</OPENINGBALANCE>\<newline>''
         @ ''                <ISBILLWISEON>''
         @ yesNo (truthy (field openingBalance ''isBillWise'')) @ ''</ISBILLWISEON>\<newline>''
         @ ''                <ISCOSTCENTRESON>''
         @ yesNo (truthy (field openingBalance ''isCostCentre'')) @ ''</ISCOSTCENTRESON>''
     else [])\<close>

text \<open>
  \<open>buildLedgerXml\<close> of the first copy: the \<open>LEDGER\<close> element has no \<open>ACTION\<close>
  attribute. \<open>ledgerTemplate\<close> is the template literal the function returns, with one
  argument for each interpolated expression.
\<close>

definition ledgerTemplate :: "string \<Rightarrow> string \<Rightarrow> string \<Rightarrow> string \<Rightarrow> string" where
  \<open>ledgerTemplate nameText parentText aliasText openingBalanceXml =
     ''<TALLYMESSAGE xmlns:UDF="TallyUDF">\<newline>''
       @ ''            <LEDGER NAME="'' @ nameText @ ''" RESERVEDNAME="">\<newline>''
       @ ''                <OLDAUDITENTRYIDS.LIST TYPE="Number">\<newline>''
       @ ''                    <OLDAUDITENTRYIDS>-1</OLDAUDITENTRYIDS>\<newline>''
       @ ''                </OLDAUDITENTRYIDS.LIST>\<newline>''
       @ ''                <GUID></GUID>\<newline>''
       @ ''                <PARENT>'' @ parentText @ ''</PARENT>\<newline>''
       @ ''                <ALIAS>'' @ aliasText @ ''</ALIAS>\<newline>''
       @ ''                <USEFORVAT>No</USEFORVAT>\<newline>''
       @ ''                <TAXCLASSIFICATIONNAME/>\<newline>''
       @ ''                <TAXTYPE>Others</TAXTYPE>\<newline>''
       @ ''                <LEDADDLALLOCTYPE/>\<newline>''
       @ ''                <GSTTYPE/>\<newline>''
       @ ''                <APPROPRIATEFOR/>\<newline>''
       @ ''                <SERVICECATEGORY/>\<newline>''
       @ ''                <EXCISELEDGERCLASSIFICATION/>\<newline>''
       @ ''                <EXCISEDUTYTYPE/>\<newline>''
       @ ''                <EXCISENATUREOFPURCHASE/>\<newline>''
       @ ''                <LEDGERFBTCATEGORY/>\<newline>''
       @ ''                <GST.REGISTRATION.TYPE/>\<newline>''
       @ ''                <VATAPPLICABLE/>\<newline>''
       @ ''                <VATAPPLICABLE>Applicable</VATAPPLICABLE>\<newline>''
       @ ''                <ISBILLWISEON>No</ISBILLWISEON>\<newline>''
       @ ''                <ISCOSTCENTRESON>No</ISCOSTCENTRESON>\<newline>''
       @ ''                <ISINTERESTON>No</ISINTERESTON>\<newline>''
       @ ''                <ALLOWINMOBILE>No</ALLOWINMOBILE>\<newline>''
       @ ''                <ISCOSTTRACKINGON>No</ISCOSTTRACKINGON>\<newline>''
       @ ''                <ISBENEFICIARYCODEON>No</ISBENEFICIARYCODEON>\<newline>''
       @ ''                <ISUPDATINGTARGETID>No</ISUPDATINGTARGETID>\<newline>''
       @ ''                <ASORIGINAL>Yes</ASORIGINAL>\<newline>''
       @ ''                <ISCONDENSED>No</ISCONDENSED>\<newline>''
       @ ''                <AFFECTSSTOCK>No</AFFECTSSTOCK>\<newline>''
       @ ''                <USEFORADVPAYMENT>No</USEFORADVPAYMENT>\<newline>''
       @ ''                <USEFORCOMPOUND>No</USEFORCOMPOUND>\<newline>''
       @ ''                <USEFORVOUCHERTYPEVALIDATION>No</USEFORVOUCHERTYPEVALIDATION>\<newline>''
       @ ''                <USEFORBILLWISEBALANCE>No</USEFORBILLWISEBALANCE>\<newline>''
       @ ''                <USEFORGODOWN>No</USEFORGODOWN>\<newline>''
       @ ''                <USEFORADVVOUCHERTYPEMAPPING>No</USEFORADVVOUCHERTYPEMAPPING>\<newline>''
       @ ''                <USEFORSCHEDULETYPEVALIDATION>No</USEFORSCHEDULETYPEVALIDATION>\<newline>''
       @ ''                <USEFORKIPADVPAYMENT>No</USEFORKIPADVPAYMENT>\<newline>''
       @ ''                <USEFORCREDITDAYSCHK>No</USEFORCREDITDAYSCHK>\<newline>''
       @ ''                <USEFORBANKRECONCILIATION>No</USEFORBANKRECONCILIATION>\<newline>''
       @ ''                <USEFOREXCISE>No</USEFOREXCISE>\<newline>''
       @ ''                <USEFORGAINLOSS>No</USEFORGAINLOSS>\<newline>''
       @ ''                <USEFORPURCHASETAX>No</USEFORPURCHASETAX>\<newline>''
       @ ''                <USEFORVATPRODUCTTAX>No</USEFORVATPRODUCTTAX>'' @ openingBalanceXml
       @ ''\<newline>''
       @ ''            </LEDGER>\<newline>''
       @ ''        </TALLYMESSAGE>''\<close>

definition buildLedgerXml :: "(jsnum \<Rightarrow> string) \<Rightarrow> jsval \<Rightarrow> err + string" where
  \<open>buildLedgerXml ns ledgerData =
    bind_err (get ledgerData ''name'') (\<lambda>name.
      let parent = field ledgerData ''parent'';
          alias = field ledgerData ''alias'';
          openingBalance = field ledgerData ''openingBalance'';
          openingBalanceXml = ledgerOpeningBalanceXml ns openingBalance
      in Inr (ledgerTemplate
                (toStringJS ns (escapeXml name))
                (toStringJS ns (escapeXml parent))
                (toStringJS ns (escapeXml (js_or alias (JStr []))))
                openingBalanceXml))\<close>

text \<open>
  \<open>buildLedgerXml\<close> of the second copy: \<open>ACTION="Create"\<close> is part of the
  \<open>LEDGER\<close> element. The name is interpolated twice; the bill-wise flag is the text of
  \<open>openingBalance && openingBalance.isBillWise ? 'Yes' : 'No'\<close>.
\<close>

definition ledgerTemplate2 ::
  "string \<Rightarrow> string \<Rightarrow> string \<Rightarrow> string \<Rightarrow> string \<Rightarrow> string" where
  \<open>ledgerTemplate2 nameText parentText aliasText isBillWiseOn openingBalanceXml =
     ''<TALLYMESSAGE xmlns:UDF="TallyUDF">\<newline>''
       @ ''            <LEDGER NAME="'' @ nameText
       @ ''" ACTION="Create" RESERVEDNAME="">\<newline>''
       @ ''                <NAME>'' @ nameText @ ''</NAME>\<newline>''
       @ ''                <PARENT>'' @ parentText @ ''</PARENT>\<newline>''
       @ ''                <ALIAS>'' @ aliasText @ ''</ALIAS>\<newline>''
       @ ''                <ISBILLWISEON>'' @ isBillWiseOn @ ''</ISBILLWISEON>\<newline>''
       @ ''                <AFFECTSSTOCK>No</AFFECTSSTOCK>\<newline>''
       @ ''                <USEFORVAT>No</USEFORVAT>\<newline>''
       @ ''                '' @ openingBalanceXml @ ''\<newline>''
       @ ''            </LEDGER>\<newline>''
       @ ''        </TALLYMESSAGE>''\<close>

definition buildLedgerXml2 :: "(jsnum \<Rightarrow> string) \<Rightarrow> jsval \<Rightarrow> err + string" where
  \<open>buildLedgerXml2 ns ledgerData =
    bind_err (get ledgerData ''name'') (\<lambda>name.
      let parent = field ledgerData ''parent'';
          alias = field ledgerData ''alias'';
          openingBalance = field ledgerData ''openingBalance'';
          openingBalanceXml = ledgerOpeningBalanceXml ns openingBalance
      in Inr (ledgerTemplate2
                (toStringJS ns (escapeXml name))
                (toStringJS ns (escapeXml parent))
                (toStringJS ns (escapeXml (js_or alias (JStr []))))
                (yesNo (truthy (js_and openingBalance (field openingBalance ''isBillWise''))))
                openingBalanceXml))\<close>

text \<open>
  The rest of what the engine supplies to the builders: \<open>ToNumber\<close> of a string (used
  when a comparison or \<open>Math.abs\<close> receives a value that is not a number) is left to
  the engine, like \<open>Number::toString\<close> and the \<open>Date\<close> constructor.
\<close>

record engine =
  numToString :: "jsnum \<Rightarrow> string"
  strToNumber :: "string \<Rightarrow> jsnum"
  newDate :: "jsval \<Rightarrow> js_date"

definition formatDate :: "('a engine_scheme) \<Rightarrow> jsval \<Rightarrow> string" where
  "formatDate eng date = formatDateObj (newDate eng date)"

definition toNumber :: "('a engine_scheme) \<Rightarrow> jsval \<Rightarrow> jsnum" where
  "toNumber eng v =
     (case v of
        JNum n \<Rightarrow> n
      | JUndefined \<Rightarrow> NaN
      | JNull \<Rightarrow> Fin 0
      | JBool b \<Rightarrow> Fin (if b then 1 else 0)
      | _ \<Rightarrow> strToNumber eng (toStringJS (numToString eng) v))"

text \<open>
  One \<open>LEDGERENTRIES.LIST\<close> element: the arrow function mapped over \<open>ledgerEntries\<close>
  in \<open>buildVoucherXml\<close>. Its template literal is \<open>ledgerEntryTemplate\<close>, with one
  argument for each interpolated expression: the escaped ledger name, the text of
  \<open>entry.amount > 0 ? 'Yes' : 'No'\<close>, the text of \<open>Math.abs(entry.amount)\<close> (interpolated
  twice), the escaped bill name and the bill type.
\<close>

definition ledgerEntryTemplate ::
  "string \<Rightarrow> string \<Rightarrow> string \<Rightarrow> string \<Rightarrow> string \<Rightarrow> string" where
  \<open>ledgerEntryTemplate ledgerNameText isDeemedPositive amountText billNameText billTypeText =
     ''\<newline>''
       @ ''            <LEDGERENTRIES.LIST>\<newline>''
       @ ''                <OLDAUDITENTRYIDS.LIST TYPE="Number">\<newline>''
       @ ''                    <OLDAUDITENTRYIDS>-1</OLDAUDITENTRYIDS>\<newline>''
       @ ''                </OLDAUDITENTRYIDS.LIST>\<newline>''
       @ ''                <LEDGERNAME>'' @ ledgerNameText @ ''</LEDGERNAME>\<newline>''
       @ ''                <ISDEEMEDPOSITIVE>'' @ isDeemedPositive
       @ ''</ISDEEMEDPOSITIVE>\<newline>''
       @ ''                <AMOUNT>'' @ amountText @ ''</AMOUNT>\<newline>''
       @ ''                <BILLALLOCATIONS.LIST>\<newline>''
       @ ''                    <NAME>'' @ billNameText @ ''</NAME>\<newline>''
       @ ''                    <BILLTYPE>'' @ billTypeText @ ''</BILLTYPE>\<newline>''
       @ ''                    <AMOUNT>'' @ amountText @ ''</AMOUNT>\<newline>''
       @ ''                </BILLALLOCATIONS.LIST>\<newline>''
       @ ''            </LEDGERENTRIES.LIST>\<newline>''
       @ ''        ''\<close>

definition ledgerEntryXml :: "('a engine_scheme) \<Rightarrow> jsval \<Rightarrow> err + string" where
  \<open>ledgerEntryXml eng entry =
    bind_err (get entry ''ledgerName'') (\<lambda>ledgerName.
      let ns = numToString eng;
          amount = field entry ''amount'';
          billName = field entry ''billName'';
          billType = field entry ''billType''
      in Inr (ledgerEntryTemplate
                (toStringJS ns (escapeXml ledgerName))
                (yesNo (js_gt (toNumber eng amount) (Fin 0)))
                (ns (js_abs (toNumber eng amount)))
                (toStringJS ns (escapeXml (js_or billName (JStr []))))
                (toStringJS ns (js_or billType (JStr ''New Ref'')))))\<close>

text \<open>\<open>ledgerEntries.map(f)\<close>: a TypeError unless \<open>ledgerEntries\<close> is an array.\<close>

definition array_map :: "string \<Rightarrow> (jsval \<Rightarrow> err + 'a) \<Rightarrow> jsval \<Rightarrow> err + 'a list" where
  "array_map what f v =
     (case v of
        JArr xs \<Rightarrow> mapM_err f xs
      | JUndefined \<Rightarrow> Inl (cannot_read ''undefined'' ''map'')
      | JNull \<Rightarrow> Inl (cannot_read ''null'' ''map'')
      | _ \<Rightarrow> Inl (TypeError (what @ ''.map is not a function'')))"

text \<open>
  \<open>buildVoucherXml\<close>. \<open>voucherTemplate\<close> is the template literal it returns, with one
  argument for each interpolated expression: the escaped voucher type (interpolated three
  times), the formatted date (twice), the escaped voucher number and narration, and the
  joined entry elements.
\<close>

definition voucherTemplate ::
  "string \<Rightarrow> string \<Rightarrow> string \<Rightarrow> string \<Rightarrow> string \<Rightarrow> string" where
  \<open>voucherTemplate voucherTypeText dateText voucherNumberText narrationText ledgerEntriesXml =
     ''<TALLYMESSAGE xmlns:UDF="TallyUDF">\<newline>''
       @ ''            <VOUCHER REMOTEID="" VCHKEY="" VCHTYPE="'' @ voucherTypeText
       @ ''" ACTION="Create" OBJVIEW="Accounting Voucher View">\<newline>''
       @ ''                <OLDAUDITENTRYIDS.LIST TYPE="Number">\<newline>''
       @ ''                    <OLDAUDITENTRYIDS>-1</OLDAUDITENTRYIDS>\<newline>''
       @ ''                </OLDAUDITENTRYIDS.LIST>\<newline>''
       @ ''                <DATE>'' @ dateText @ ''</DATE>\<newline>''
       @ ''                <VOUCHERTYPENAME>'' @ voucherTypeText
       @ ''</VOUCHERTYPENAME>\<newline>''
       @ ''                <VOUCHERNUMBER>'' @ voucherNumberText
       @ ''</VOUCHERNUMBER>\<newline>''
       @ ''                <NARRATION>'' @ narrationText @ ''</NARRATION>\<newline>''
       @ ''                <PARTYLEDGERNAME></PARTYLEDGERNAME>\<newline>''
       @ ''                <VOUCHERTYPENAME>'' @ voucherTypeText
       @ ''</VOUCHERTYPENAME>\<newline>''
       @ ''                <REFERENCE></REFERENCE>\<newline>''
       @ ''                <PERSISTEDVIEW>Accounting Voucher View</PERSISTEDVIEW>\<newline>''
       @ ''                <VCHGSTCLASS/>\<newline>''
       @ ''                <ENTEREDBY>SDK</ENTEREDBY>\<newline>''
       @ ''                <DIFFACTUALQTY>No</DIFFACTUALQTY>\<newline>''
       @ ''                <ISMSTFROMSYNC>No</ISMSTFROMSYNC>\<newline>''
       @ ''                <ASORIGINAL>No</ASORIGINAL>\<newline>''
       @ ''                <AUDITED>No</AUDITED>\<newline>''
       @ ''                <FORJOBCOSTING>No</FORJOBCOSTING>\<newline>''
       @ ''                <ISOPTIONAL>No</ISOPTIONAL>\<newline>''
       @ ''                <EFFECTIVEDATE>'' @ dateText @ ''</EFFECTIVEDATE>\<newline>''
       @ ''                <USEFOREXCISE>No</USEFOREXCISE>\<newline>''
       @ ''                <ISFORJOBWORKIN>No</ISFORJOBWORKIN>\<newline>''
       @ ''                <ALLOWCONSUMPTION>No</ALLOWCONSUMPTION>\<newline>''
       @ ''                <USEFORINTEREST>No</USEFORINTEREST>\<newline>''
       @ ''                <USEFORGAINLOSS>No</USEFORGAINLOSS>\<newline>''
       @ ''                <USEFORGODOWNTRANSFER>No</USEFORGODOWNTRANSFER>\<newline>''
       @ ''                <USEFORCOMPOUND>No</USEFORCOMPOUND>\<newline>''
       @ ''                <USEFORSERVICETAX>No</USEFORSERVICETAX>\<newline>''
       @ ''                <ISEXCISEVOUCHER>No</ISEXCISEVOUCHER>\<newline>''
       @ ''                <EXCISETAXOVERRIDE>No</EXCISETAXOVERRIDE>\<newline>''
       @ ''                <USEFORTAXUNITTRANSFER>No</USEFORTAXUNITTRANSFER>\<newline>''
       @ ''                <IGNOREPOSVALIDATION>No</IGNOREPOSVALIDATION>\<newline>''
       @ ''                <EXCISEOPENING>No</EXCISEOPENING>\<newline>''
       @ ''                <USEFORFINALPRODUCTION>No</USEFORFINALPRODUCTION>\<newline>''
       @ ''                <ISTDSOVERRIDDEN>No</ISTDSOVERRIDDEN>\<newline>''
       @ ''                <ISTCSOVERRIDDEN>No</ISTCSOVERRIDDEN>\<newline>''
       @ ''                <ISTDSTCSCASHVCH>No</ISTDSTCSCASHVCH>\<newline>''
       @ ''                <INCLUDEADVPYMTVCH>No</INCLUDEADVPYMTVCH>\<newline>''
       @ ''                <ISSUBWORKSCONTRACT>No</ISSUBWORKSCONTRACT>\<newline>''
       @ ''                <ISVATOVERRIDDEN>No</ISVATOVERRIDDEN>\<newline>''
       @ ''                <IGNOREORIGVCHDATE>No</IGNOREORIGVCHDATE>\<newline>''
       @ ''                <ISVATPAIDATCUSTOMS>No</ISVATPAIDATCUSTOMS>\<newline>''
       @ ''                <ISDECLAREDTOCUSTOMS>No</ISDECLAREDTOCUSTOMS>\<newline>''
       @ ''                <ISSERVICETAXOVERRIDDEN>No</ISSERVICETAXOVERRIDDEN>\<newline>''
       @ ''                <ISISDVOUCHER>No</ISISDVOUCHER>\<newline>''
       @ ''                <ISEXCISEOVERRIDDEN>No</ISEXCISEOVERRIDDEN>\<newline>''
       @ ''                <ISEXCISESUPPLYVCH>No</ISEXCISESUPPLYVCH>\<newline>''
       @ ''                <ISGSTOVERRIDDEN>No</ISGSTOVERRIDDEN>\<newline>''
       @ ''                <GSTNOTEXPORTED>No</GSTNOTEXPORTED>\<newline>''
       @ ''                <IGNOREGSTINVALIDATION>No</IGNOREGSTINVALIDATION>\<newline>''
       @ ''                <ISVATPRINCIPALACCOUNT>No</ISVATPRINCIPALACCOUNT>\<newline>''
       @ ''                <VCHSTATUSISVCHNUMUSED>No</VCHSTATUSISVCHNUMUSED>\<newline>''
       @ ''                <VCHGSTCLASS/>\<newline>''
       @ ''                <VCHENTRYMODE>Item Invoice</VCHENTRYMODE>\<newline>''
       @ ''                <DIFFACTUALQTY>No</DIFFACTUALQTY>\<newline>''
       @ ''                <ISMSTFROMSYNC>No</ISMSTFROMSYNC>\<newline>''
       @ ''                <ISDELETED>No</ISDELETED>\<newline>''
       @ ''                <ISSECURITYONWHENENTERED>No</ISSECURITYONWHENENTERED>\<newline>''
       @ ''                <ASORIGINAL>No</ASORIGINAL>\<newline>''
       @ ''                <AUDITED>No</AUDITED>\<newline>''
       @ ''                <ISCOMMONPARTY>No</ISCOMMONPARTY>\<newline>''
       @ ''                <FORJOBCOSTING>No</FORJOBCOSTING>\<newline>''
       @ ''                <ISOPTIONAL>No</ISOPTIONAL>\<newline>''
       @ ''                <USEFOREXCISE>No</USEFOREXCISE>\<newline>''
       @ ''                <ISFORJOBWORKIN>No</ISFORJOBWORKIN>\<newline>''
       @ ''                <ALLOWCONSUMPTION>No</ALLOWCONSUMPTION>\<newline>''
       @ ''                <USEFORINTEREST>No</USEFORINTEREST>\<newline>''
       @ ''                <USEFORGAINLOSS>No</USEFORGAINLOSS>\<newline>''
       @ ''                <USEFORGODOWNTRANSFER>No</USEFORGODOWNTRANSFER>\<newline>''
       @ ''                <USEFORCOMPOUND>No</USEFORCOMPOUND>\<newline>''
       @ ''                <USEFORSERVICETAX>No</USEFORSERVICETAX>\<newline>''
       @ ''                <ISEXCISEVOUCHER>No</ISEXCISEVOUCHER>\<newline>''
       @ ''                <EXCISETAXOVERRIDE>No</EXCISETAXOVERRIDE>\<newline>''
       @ ''                <USEFORTAXUNITTRANSFER>No</USEFORTAXUNITTRANSFER>\<newline>''
       @ ''                <IGNOREPOSVALIDATION>No</IGNOREPOSVALIDATION>\<newline>''
       @ ''                <EXCISEOPENING>No</EXCISEOPENING>\<newline>''
       @ ''                <USEFORFINALPRODUCTION>No</USEFORFINALPRODUCTION>\<newline>''
       @ ''                <ISTDSOVERRIDDEN>No</ISTDSOVERRIDDEN>\<newline>''
       @ ''                <ISTCSOVERRIDDEN>No</ISTCSOVERRIDDEN>\<newline>''
       @ ''                <ISTDSTCSCASHVCH>No</ISTDSTCSCASHVCH>\<newline>''
       @ ''                <INCLUDEADVPYMTVCH>No</INCLUDEADVPYMTVCH>\<newline>''
       @ ''                <ISSUBWORKSCONTRACT>No</ISSUBWORKSCONTRACT>\<newline>''
       @ ''                <ISVATOVERRIDDEN>No</ISVATOVERRIDDEN>\<newline>''
       @ ''                <IGNOREORIGVCHDATE>No</IGNOREORIGVCHDATE>\<newline>''
       @ ''                <ISVATPAIDATCUSTOMS>No</ISVATPAIDATCUSTOMS>\<newline>''
       @ ''                <ISDECLAREDTOCUSTOMS>No</ISDECLAREDTOCUSTOMS>\<newline>''
       @ ''                <ISSERVICETAXOVERRIDDEN>No</ISSERVICETAXOVERRIDDEN>\<newline>''
       @ ''                <ISISDVOUCHER>No</ISISDVOUCHER>\<newline>''
       @ ''                <ISEXCISEOVERRIDDEN>No</ISEXCISEOVERRIDDEN>\<newline>''
       @ ''                <ISEXCISESUPPLYVCH>No</ISEXCISESUPPLYVCH>\<newline>''
       @ ''                <ISGSTOVERRIDDEN>No</ISGSTOVERRIDDEN>\<newline>''
       @ ''                <GSTNOTEXPORTED>No</GSTNOTEXPORTED>\<newline>''
       @ ''                <IGNOREGSTINVALIDATION>No</IGNOREGSTINVALIDATION>\<newline>''
       @ ''                <ISVATPRINCIPALACCOUNT>No</ISVATPRINCIPALACCOUNT>\<newline>''
       @ ''                <VCHSTATUSISVCHNUMUSED>No</VCHSTATUSISVCHNUMUSED>''
       @ ledgerEntriesXml @ ''\<newline>''
       @ ''            </VOUCHER>\<newline>''
       @ ''        </TALLYMESSAGE>''\<close>

definition buildVoucherXml :: "('a engine_scheme) \<Rightarrow> jsval \<Rightarrow> err + string" where
  \<open>buildVoucherXml eng voucherData =
    bind_err (get voucherData ''voucherType'') (\<lambda>voucherType.
      let ns = numToString eng;
          date = field voucherData ''date'';
          ledgerEntries = field voucherData ''ledgerEntries'';
          narration = field voucherData ''narration'';
          voucherNumber = field voucherData ''voucherNumber''
      in bind_err (array_map ''ledgerEntries'' (ledgerEntryXml eng) ledgerEntries) (\<lambda>xs.
      let ledgerEntriesXml = concat xs
      in Inr (voucherTemplate
                (toStringJS ns (escapeXml voucherType))
                (formatDate eng date)
                (toStringJS ns (escapeXml (js_or voucherNumber (JStr []))))
                (toStringJS ns (escapeXml (js_or narration (JStr []))))
                ledgerEntriesXml)))\<close>

definition stockOpeningBalanceXml :: "(jsnum \<Rightarrow> string) \<Rightarrow> jsval \<Rightarrow> string" where
  \<open>stockOpeningBalanceXml ns openingBalance =
    (if truthy openingBalance then
       ''\<newline>''
         @ ''                <OPENINGBALANCE>''
         @ toStringJS ns (js_or (field openingBalance ''quantity'') (JNum (Fin 0)))
         @ ''</OPENINGBALANCE>\<newline>''
         @ ''                <OPENINGRATE>''
         @ toStringJS ns (js_or (field openingBalance ''rate'') (JNum (Fin 0)))
         @ ''</OPENINGRATE>\<newline>''
         @ ''                <OPENINGVALUE>''
         @ toStringJS ns (js_or (field openingBalance ''value'') (JNum (Fin 0)))
         @ ''</OPENINGVALUE>''
     else [])\<close>

text \<open>
  \<open>buildStockItemXml\<close> (the same text in both copies): the \<open>STOCKITEM\<close> element has
  no \<open>ACTION\<close> attribute. \<open>stockItemTemplate\<close> is the template literal it returns.
\<close>

definition stockItemTemplate ::
  "string \<Rightarrow> string \<Rightarrow> string \<Rightarrow> string \<Rightarrow> string \<Rightarrow> string" where
  \<open>stockItemTemplate nameText parentText aliasText baseUnitsText openingBalanceXml =
     ''<TALLYMESSAGE xmlns:UDF="TallyUDF">\<newline>''
       @ ''            <STOCKITEM NAME="'' @ nameText @ ''" RESERVEDNAME="">\<newline>''
       @ ''                <OLDAUDITENTRYIDS.LIST TYPE="Number">\<newline>''
       @ ''                    <OLDAUDITENTRYIDS>-1</OLDAUDITENTRYIDS>\<newline>''
       @ ''                </OLDAUDITENTRYIDS.LIST>\<newline>''
       @ ''                <GUID></GUID>\<newline>''
       @ ''                <PARENT>'' @ parentText @ ''</PARENT>\<newline>''
       @ ''                <ALIAS>'' @ aliasText @ ''</ALIAS>\<newline>''
       @ ''                <BASEUNITS>'' @ baseUnitsText @ ''</BASEUNITS>\<newline>''
       @ ''                <ADDITIONALUNITS/>\<newline>''
       @ ''                <VAT.VATCLASSIFICATIONNAME/>\<newline>''
       @ ''                <VAT.VATASSESSABLEVALUE/>\<newline>''
       @ ''                <GST.APPLICABLE/>\<newline>''
       @ ''                <GST.HSNCODE/>\<newline>''
       @ ''                <GST.TAXABILITY/>\<newline>''
       @ ''                <GST.GSTTYPEOFSUPPLY/>\<newline>''
       @ ''                <ISCOSTCENTRESON>No</ISCOSTCENTRESON>\<newline>''
       @ ''                <ISENTRYTAXAPPLICABLE>No</ISENTRYTAXAPPLICABLE>\<newline>''
       @ ''                <ISCOSTTRACKINGON>No</ISCOSTTRACKINGON>\<newline>''
       @ ''                <ISUPDATINGTARGETID>No</ISUPDATINGTARGETID>\<newline>''
       @ ''                <ASORIGINAL>Yes</ASORIGINAL>\<newline>''
       @ ''                <IGNOREPHYSICALDIFFERENCE>No</IGNOREPHYSICALDIFFERENCE>\<newline>''
       @ ''                <IGNORENEGATIVESTOCK>No</IGNORENEGATIVESTOCK>\<newline>''
       @ ''                <TREATSALESASMANUFACTURED>No</TREATSALESASMANUFACTURED>\<newline>''
       @ ''                <TREATPURCHASESASCONSUMED>No</TREATPURCHASESASCONSUMED>\<newline>''
       @ ''                <TREATRECEIPTSASREVENUE>No</TREATRECEIPTSASREVENUE>\<newline>''
       @ ''                <HASMFGDATE>No</HASMFGDATE>\<newline>''
       @ ''                <ALLOWUSEOFEXPIREDITEMS>No</ALLOWUSEOFEXPIREDITEMS>\<newline>''
       @ ''                <IGNOREBATCHES>No</IGNOREBATCHES>\<newline>''
       @ ''                <IGNOREGODOWNS>No</IGNOREGODOWNS>\<newline>''
       @ ''                <CALCONMRP>No</CALCONMRP>\<newline>''
       @ ''                <EXCLUDEJRNLFORVALUATION>No</EXCLUDEJRNLFORVALUATION>\<newline>''
       @ ''                <ISMAINTAINEDINNATIONALCURRENCY>No</ISMAINTAINEDINNATIONALCURRENCY>\<newline>''
       @ ''                <AUDITED>No</AUDITED>\<newline>''
       @ ''                <FORPURCHASETAX>No</FORPURCHASETAX>\<newline>''
       @ ''                <FORSERVICETAX>No</FORSERVICETAX>\<newline>''
       @ ''                <FORVAT>No</FORVAT>\<newline>''
       @ ''                <FORROYALTY>No</FORROYALTY>\<newline>''
       @ ''                <FOREXCISE>No</FOREXCISE>\<newline>''
       @ ''                <FORTDS>No</FORTDS>\<newline>''
       @ ''                <FORTCS>No</FORTCS>\<newline>''
       @ ''                <FORPURCHASETAX>No</FORPURCHASETAX>\<newline>''
       @ ''                <FORSERVICETAX>No</FORSERVICETAX>\<newline>''
       @ ''                <FORVAT>No</FORVAT>\<newline>''
       @ ''                <FORROYALTY>No</FORROYALTY>\<newline>''
       @ ''                <FOREXCISE>No</FOREXCISE>\<newline>''
       @ ''                <FORTDS>No</FORTDS>\<newline>''
       @ ''                <FORTCS>No</FORTCS>'' @ openingBalanceXml @ ''\<newline>''
       @ ''            </STOCKITEM>\<newline>''
       @ ''        </TALLYMESSAGE>''\<close>

definition buildStockItemXml :: "(jsnum \<Rightarrow> string) \<Rightarrow> jsval \<Rightarrow> err + string" where
  \<open>buildStockItemXml ns stockData =
    bind_err (get stockData ''name'') (\<lambda>name.
      let parent = field stockData ''parent'';
          baseUnits = field stockData ''baseUnits'';
          openingBalance = field stockData ''openingBalance'';
          alias = field stockData ''alias'';
          openingBalanceXml = stockOpeningBalanceXml ns openingBalance
      in Inr (stockItemTemplate
                (toStringJS ns (escapeXml name))
                (toStringJS ns (escapeXml parent))
                (toStringJS ns (escapeXml (js_or alias (JStr []))))
                (toStringJS ns (escapeXml baseUnits))
                openingBalanceXml))\<close>

section \<open>parseFloat\<close>

text \<open>
  \<open>parseFloat(string)\<close>: leading white space is skipped, then the longest prefix that is
  a decimal literal (sign, digits, fraction, exponent, or \<open>Infinity\<close>) is read; without
  such a prefix the result is NaN. The value read is rounded to a double. White space is
  what the characters below 256 have of it: tab, the line terminators, space and the
  no-break space.
\<close>

definition is_digit :: "char \<Rightarrow> bool" where
  "is_digit c = (48 \<le> (of_char c :: nat) \<and> (of_char c :: nat) \<le> 57)"

definition is_space :: "char \<Rightarrow> bool" where
  "is_space c = ((of_char c :: nat) \<in> {9, 10, 11, 12, 13, 32, 160})"

definition digits_value :: "string \<Rightarrow> nat" where
  "digits_value ds = foldl (\<lambda>a c. 10 * a + (of_char c - 48)) 0 ds"

text \<open>The optional exponent part after the mantissa: \<open>e\<close> or \<open>E\<close>, an optional sign
  and at least one digit; anything else leaves the mantissa as it is.\<close>

definition apply_exponent :: "rat \<Rightarrow> string \<Rightarrow> rat" where
  "apply_exponent m rest =
     (case rest of
        [] \<Rightarrow> m
      | c # r \<Rightarrow>
          if c = CHR ''e'' \<or> c = CHR ''E'' then
            (case r of
               [] \<Rightarrow> m
             | s # r' \<Rightarrow>
                 if s = CHR ''-'' then
                   (if takeWhile is_digit r' = [] then m
                    else m / 10 ^ digits_value (takeWhile is_digit r'))
                 else if s = CHR ''+'' then
                   (if takeWhile is_digit r' = [] then m
                    else m * 10 ^ digits_value (takeWhile is_digit r'))
                 else
                   (if takeWhile is_digit r = [] then m
                    else m * 10 ^ digits_value (takeWhile is_digit r)))
          else m)"

definition parse_unsigned :: "string \<Rightarrow> jsnum" where
  "parse_unsigned s =
     (if prefix ''Infinity'' s then PInf
      else
        let ip = takeWhile is_digit s; r1 = dropWhile is_digit s in
        (case r1 of
           [] \<Rightarrow> if ip = [] then NaN else fl (of_nat (digits_value ip))
         | c # r \<Rightarrow>
             if c = CHR ''.'' then
               (let fp = takeWhile is_digit r; r2 = dropWhile is_digit r in
                if ip = [] \<and> fp = [] then NaN
                else fl (apply_exponent
                       (of_nat (digits_value ip) + of_nat (digits_value fp) / 10 ^ length fp) r2))
             else if ip = [] then NaN
             else fl (apply_exponent (of_nat (digits_value ip)) r1)))"

definition parseFloat_str :: "string \<Rightarrow> jsnum" where
  "parseFloat_str s =
     (case dropWhile is_space s of
        [] \<Rightarrow> NaN
      | c # r \<Rightarrow>
          if c = CHR ''-'' then js_neg (parse_unsigned r)
          else if c = CHR ''+'' then parse_unsigned r
          else parse_unsigned (c # r))"

text \<open>
  \<open>parseFloat(v)\<close> parses the string of \<open>v\<close>. A number prints to a string that reads
  back as the same number. An array prints its elements separated by commas, so the
  prefix read is that of its first element; \<open>undefined\<close>, \<open>null\<close>, booleans and
  objects print to text without a numeric prefix.
\<close>

fun parseFloat :: "jsval \<Rightarrow> jsnum" where
  "parseFloat (JNum n) = n"
| "parseFloat (JStr s) = parseFloat_str s"
| "parseFloat (JArr []) = NaN"
| "parseFloat (JArr (v # vs)) = (if v = JUndefined \<or> v = JNull then NaN else parseFloat v)"
| "parseFloat _ = NaN"

text \<open>\<open>parseFloat(v) || 0\<close>.\<close>

definition parseFloat_or_0 :: "jsval \<Rightarrow> jsval" where
  "parseFloat_or_0 v = js_or (JNum (parseFloat v)) (JNum (Fin 0))"

text \<open>The number a value is, at a place where the code has established
  \<open>typeof v === 'number'\<close>.\<close>

definition number_value :: "jsval \<Rightarrow> jsnum" where
  "number_value v = (case v of JNum n \<Rightarrow> n | _ \<Rightarrow> NaN)"

text \<open>The elements of a value the code has found to be an array.\<close>

definition elements :: "jsval \<Rightarrow> jsval list" where
  "elements v = (case v of JArr xs \<Rightarrow> xs | _ \<Rightarrow> [])"

text \<open>\<open>Array.isArray(x) ? x : [x]\<close>.\<close>

definition as_array :: "jsval \<Rightarrow> jsval list" where
  "as_array x = (if isArray x then elements x else [x])"

section \<open>TallyConnector\<close>

text \<open>
  The collaborators of the connector: the HTTP transport (\<open>post\<close>: the response body, or
  the message of the error the interceptor \<open>_handleError\<close> throws), the XML parser
  \<open>parseString\<close> of \<open>xml2js\<close> (the tree, or the parser's error message), the clock
  behind \<open>new Date()\<close> and the environment variable \<open>TALLY_COMPANY\<close>.
\<close>

record runtime = engine +
  post :: "string \<Rightarrow> string + string"
  parseString :: "string \<Rightarrow> string + jsval"
  now :: js_date
  TALLY_COMPANY :: jsval

text \<open>\<open>_parseResponse\<close>.\<close>

definition parseResponse :: "('a runtime_scheme) \<Rightarrow> string \<Rightarrow> err + jsval" where
  "parseResponse rt xmlData =
     (case parseString rt xmlData of
        Inl m \<Rightarrow> Inl (Error (''XML parsing error: '' @ m))
      | Inr result \<Rightarrow>
          bind_err (get result ''ENVELOPE'') (\<lambda>e.
          let envelope = js_or e result in
          bind_err (get envelope ''BODY'') (\<lambda>b.
          let body = js_or b envelope in
          bind_err (get body ''ERROR'') (\<lambda>bodyERROR.
          let bodyLINEERROR = field body ''LINEERROR'' in
          if truthy (js_or bodyERROR bodyLINEERROR) then
            (let errorMsg = js_or bodyERROR bodyLINEERROR
             in Inl (Error (''Tally error: '' @ toStringJS (numToString rt) errorMsg)))
          else
            Inr (JObj [(''success'', JBool True), (''data'', result),
                       (''rawXml'', JStr xmlData)])))))"

text \<open>\<open>try { ... } catch (error) { throw new Error(`prefix${error.message}`) }\<close>.\<close>

definition rethrow :: "string \<Rightarrow> err + 'a \<Rightarrow> err + 'a" where
  "rethrow prfx r = (case r of Inl e \<Rightarrow> Inl (Error (prfx @ message e)) | Inr x \<Rightarrow> Inr x)"

definition sendRequest :: "('a runtime_scheme) \<Rightarrow> string \<Rightarrow> err + jsval" where
  "sendRequest rt xmlData =
     rethrow ''TallyPrime request failed: ''
       (case post rt xmlData of
          Inl m \<Rightarrow> Inl (Error m)
        | Inr responseData \<Rightarrow> parseResponse rt responseData)"

section \<open>The response interpreters\<close>

text \<open>
  Every interpreter starts with the same lines: it steps through \<open>ENVELOPE\<close> and
  \<open>BODY\<close> when they are there, and looks for \<open>EXPORTDATA.REQUESTDATA\<close>. The result is
  \<open>Some\<close> of what \<open>REQUESTDATA.TALLYMESSAGE\<close> holds when the test
  \<open>body.EXPORTDATA && body.EXPORTDATA.REQUESTDATA\<close> succeeds, else \<open>None\<close>.
\<close>

definition locateTallyMessage :: "jsval \<Rightarrow> err + jsval option" where
  "locateTallyMessage responseData =
     bind_err (get responseData ''ENVELOPE'') (\<lambda>e.
     let envelope = js_or e responseData in
     bind_err (get envelope ''BODY'') (\<lambda>b.
     let body = js_or b envelope in
     bind_err (get body ''EXPORTDATA'') (\<lambda>exportData.
     if truthy (js_and exportData (field exportData ''REQUESTDATA''))
     then Inr (Some (field (field exportData ''REQUESTDATA'') ''TALLYMESSAGE''))
     else Inr None)))"

definition or_empty :: "jsval \<Rightarrow> jsval" where
  "or_empty v = js_or v (JStr [])"

subsection \<open>VoucherService\<close>

text \<open>The arrow function of \<open>_parseLedgerEntries\<close>.\<close>

definition parseLedgerEntry :: "jsval \<Rightarrow> err + jsval" where
  "parseLedgerEntry entry =
     bind_err (get entry ''LEDGERNAME'') (\<lambda>ledgername.
       let billAllocations = field entry ''BILLALLOCATIONS.LIST'' in
       Inr (JObj
         [(''ledgerName'', or_empty ledgername),
          (''amount'',
             js_or (JNum (js_times_sign (parseFloat (field entry ''AMOUNT''))
                            (eq_str (field entry ''ISDEEMEDPOSITIVE'') ''No'')))
                   (JNum (Fin 0))),
          (''billName'',
             if truthy billAllocations then field billAllocations ''NAME'' else JStr []),
          (''billType'',
             if truthy billAllocations then field billAllocations ''BILLTYPE'' else JStr [])]))"

definition parseLedgerEntries :: "jsval \<Rightarrow> err + jsval" where
  "parseLedgerEntries ledgerEntriesData =
     bind_err (mapM_err parseLedgerEntry (as_array ledgerEntriesData)) (\<lambda>xs. Inr (JArr xs))"

definition parseVoucherResponse :: "jsval \<Rightarrow> err + jsval" where
  "parseVoucherResponse responseData =
     bind_err (locateTallyMessage responseData) (\<lambda>m.
       case m of
         None \<Rightarrow> Inr (JObj [])
       | Some tallyMessage \<Rightarrow>
           let voucherData = js_or tallyMessage (JObj []) in
           bind_err (parseLedgerEntries (js_or (field voucherData ''LEDGERENTRIES.LIST'') (JArr [])))
             (\<lambda>ledgerEntries.
               Inr (JObj
                 [(''voucherNumber'', or_empty (field voucherData ''VOUCHERNUMBER'')),
                  (''voucherType'', or_empty (field voucherData ''VOUCHERTYPENAME'')),
                  (''date'', or_empty (field voucherData ''DATE'')),
                  (''narration'', or_empty (field voucherData ''NARRATION'')),
                  (''ledgerEntries'', ledgerEntries)])))"

text \<open>\<open>_groupVouchersByType\<close> ignores its argument.\<close>

definition groupVouchersByType :: "jsval \<Rightarrow> jsval" where
  "groupVouchersByType summaryData =
     (let zero = JObj [(''count'', JNum (Fin 0)), (''amount'', JNum (Fin 0))] in
      JObj [(''Sales'', zero), (''Purchase'', zero), (''Receipt'', zero),
            (''Payment'', zero), (''Journal'', zero)])"

definition or_zero :: "jsval \<Rightarrow> jsval" where
  "or_zero v = js_or v (JNum (Fin 0))"

definition parseVoucherSummaryResponse :: "jsval \<Rightarrow> jsval \<Rightarrow> err + jsval" where
  "parseVoucherSummaryResponse responseData groupByType =
     bind_err (locateTallyMessage responseData) (\<lambda>m.
       case m of
         None \<Rightarrow> Inr (JObj [])
       | Some tallyMessage \<Rightarrow>
           let summaryData = js_or tallyMessage (JObj []) in
           if truthy groupByType then
             Inr (JObj
               [(''byType'', groupVouchersByType summaryData),
                (''total'', JObj
                   [(''count'', or_zero (field summaryData ''TOTALCOUNT'')),
                    (''amount'', or_zero (field summaryData ''TOTALAMOUNT''))])])
           else
             Inr (JObj
               [(''totalCount'', or_zero (field summaryData ''TOTALCOUNT'')),
                (''totalAmount'', or_zero (field summaryData ''TOTALAMOUNT'')),
                (''averageAmount'', or_zero (field summaryData ''AVERAGEAMOUNT''))]))"

text \<open>\<open>_validateVoucherData\<close>: the loop over the entries, then the whole function.\<close>

fun validateEntries :: "jsval list \<Rightarrow> err + unit" where
  "validateEntries [] = Inr ()"
| "validateEntries (entry # rest) =
     bind_err (get entry ''ledgerName'') (\<lambda>ledgerName.
       if \<not> truthy ledgerName then
         Inl (Error ''Each ledger entry must have a ledger name'')
       else if \<not> is_number (field entry ''amount'') \<or> field entry ''amount'' = JNum (Fin 0) then
         Inl (Error ''Each ledger entry must have a non-zero amount'')
       else validateEntries rest)"

text \<open>\<open>ledgerEntries.reduce((sum, entry) => sum + entry.amount, 0)\<close>, evaluated after the
  loop has found every amount to be a number.\<close>

definition totalAmount :: "jsval list \<Rightarrow> jsnum" where
  "totalAmount entries =
     foldl (\<lambda>sum entry. js_add sum (number_value (field entry ''amount''))) (Fin 0) entries"

definition validateVoucherData :: "jsval \<Rightarrow> err + unit" where
  "validateVoucherData voucherData =
     bind_err (get voucherData ''voucherType'') (\<lambda>voucherType.
       if \<not> truthy voucherType then Inl (Error ''Voucher type is required'')
       else if \<not> truthy (field voucherData ''date'') then
         Inl (Error ''Voucher date is required'')
       else if \<not> truthy (field voucherData ''ledgerEntries'')
             \<or> \<not> isArray (field voucherData ''ledgerEntries'') then
         Inl (Error ''Ledger entries are required and must be an array'')
       else if length (elements (field voucherData ''ledgerEntries'')) < 2 then
         Inl (Error ''At least two ledger entries are required for a voucher'')
       else
         bind_err (validateEntries (elements (field voucherData ''ledgerEntries''))) (\<lambda>_.
           if js_gt (js_abs (totalAmount (elements (field voucherData ''ledgerEntries''))))
                (fl (1 / 100))
           then Inl (Error ''Voucher debits and credits must balance'')
           else Inr ()))"

text \<open>\<open>createVoucher\<close>: validation runs before the \<open>try\<close> block, so its error is thrown
  as it is; what the \<open>try\<close> block throws is wrapped.\<close>

definition createVoucher :: "('a runtime_scheme) \<Rightarrow> jsval \<Rightarrow> err + jsval" where
  "createVoucher rt voucherData =
     bind_err (validateVoucherData voucherData) (\<lambda>_.
       rethrow ''Failed to create voucher: ''
         (bind_err (buildVoucherXml rt voucherData) (\<lambda>voucherXml.
          let importXml = buildImportRequest voucherXml in
          bind_err (sendRequest rt importXml) (\<lambda>response.
            Inr (JObj
              [(''success'', JBool True),
               (''message'', JStr ''Voucher created successfully''),
               (''data'', field response ''data''),
               (''voucherNumber'', field voucherData ''voucherNumber''),
               (''voucherType'', field voucherData ''voucherType'')])))))"

text \<open>A parameter with the default value \<open>{}\<close>.\<close>

definition default_obj :: "jsval \<Rightarrow> jsval" where
  "default_obj v = (if v = JUndefined then JObj [] else v)"

text \<open>A filter that is added only when its value is truthy:
  \<open>if (value) filters.KEY = value\<close>.\<close>

definition filter_if :: "string \<Rightarrow> jsval \<Rightarrow> (string \<times> jsval) list" where
  "filter_if k v = (if truthy v then [(k, v)] else [])"

definition fetchVoucher :: "('a runtime_scheme) \<Rightarrow> jsval \<Rightarrow> jsval \<Rightarrow> jsval \<Rightarrow> err + jsval" where
  "fetchVoucher rt voucherNumber voucherType options =
     (if \<not> truthy voucherNumber \<or> \<not> truthy voucherType then
        Inl (Error ''Voucher number and type are required'')
      else
        rethrow ''Failed to fetch voucher: ''
          (bind_err (get (default_obj options) ''date'') (\<lambda>date.
           let filters = [(''VOUCHERNUMBER'', voucherNumber), (''VOUCHERTYPE'', voucherType)]
                         @ filter_if ''DATE'' date;
               exportXml = buildExportRequest (numToString rt) ''Voucher Details'' filters in
           bind_err (sendRequest rt exportXml) (\<lambda>response.
           bind_err (parseVoucherResponse (field response ''data'')) (\<lambda>data.
             Inr (JObj
               [(''success'', JBool True), (''data'', data),
                (''voucherNumber'', voucherNumber), (''voucherType'', voucherType)]))))))"

text \<open>
  \<open>updateVoucher\<close>. The merged payload \<open>updatedVoucherData\<close> and the string
  \<open>updateXml\<close> are local constants of the source; they are defined on their own here
  (bound as \<open>merged\<close> and \<open>updateXml\<close> in the operation) so that theorems can speak
  about them. \<open>currentData\<close> is \<open>currentVoucher.data\<close>, the object the interpreter
  returned.
\<close>

definition updatedVoucherData :: "jsval \<Rightarrow> jsval \<Rightarrow> jsval \<Rightarrow> jsval \<Rightarrow> err + jsval" where
  "updatedVoucherData voucherNumber voucherType updates currentData =
     bind_err (get updates ''date'') (\<lambda>updatesDate.
       Inr (JObj
         [(''voucherType'', voucherType),
          (''voucherNumber'', voucherNumber),
          (''date'', js_or updatesDate (field currentData ''date'')),
          (''narration'', js_or (field updates ''narration'') (field currentData ''narration'')),
          (''ledgerEntries'',
             js_or (field updates ''ledgerEntries'') (field currentData ''ledgerEntries''))]))"

definition actionCreate :: string where
  \<open>actionCreate = ''ACTION="Create"''\<close>

definition actionAlter :: string where
  \<open>actionAlter = ''ACTION="Alter"''\<close>

definition voucherUpdateXml :: "('a engine_scheme) \<Rightarrow> jsval \<Rightarrow> err + string" where
  "voucherUpdateXml eng merged =
     bind_err (buildVoucherXml eng merged) (\<lambda>voucherXml.
       Inr (replaceFirst actionCreate actionAlter voucherXml))"

definition quoted :: "string \<Rightarrow> string" where
  "quoted s = [CHR 0x27] @ s @ [CHR 0x27]"

definition updateVoucher :: "('a runtime_scheme) \<Rightarrow> jsval \<Rightarrow> jsval \<Rightarrow> jsval \<Rightarrow> err + jsval" where
  "updateVoucher rt voucherNumber voucherType updates =
     (if \<not> truthy voucherNumber \<or> \<not> truthy voucherType then
        Inl (Error ''Voucher number and type are required'')
      else
        rethrow ''Failed to update voucher: ''
          (bind_err (fetchVoucher rt voucherNumber voucherType JUndefined) (\<lambda>currentVoucher.
           bind_err (updatedVoucherData voucherNumber voucherType updates
                       (field currentVoucher ''data'')) (\<lambda>merged.
           bind_err (validateVoucherData merged) (\<lambda>_.
           bind_err (voucherUpdateXml rt merged) (\<lambda>updateXml.
           let importXml = buildImportRequest updateXml in
           bind_err (sendRequest rt importXml) (\<lambda>response.
             Inr (JObj
               [(''success'', JBool True),
                (''message'', JStr (''Voucher '' @ quoted (toStringJS (numToString rt) voucherNumber)
                                     @ '' updated successfully'')),
                (''data'', field response ''data''),
                (''voucherNumber'', voucherNumber), (''voucherType'', voucherType)]))))))))"








subsection \<open>LedgerService\<close>

definition parseLedgerResponse :: "jsval \<Rightarrow> err + jsval" where
  "parseLedgerResponse responseData =
     bind_err (locateTallyMessage responseData) (\<lambda>m.
       case m of
         None \<Rightarrow> Inr (JObj [])
       | Some tallyMessage \<Rightarrow>
           let ledgerData = js_or tallyMessage (JObj []) in
           Inr (JObj
             [(''name'', or_empty (field ledgerData ''NAME'')),
              (''parent'', or_empty (field ledgerData ''PARENT'')),
              (''alias'', or_empty (field ledgerData ''ALIAS'')),
              (''openingBalance'', JObj
                 [(''amount'', or_zero (field ledgerData ''OPENINGBALANCE'')),
                  (''isBillWise'', JBool (eq_str (field ledgerData ''ISBILLWISEON'') ''Yes'')),
                  (''isCostCentre'',
                     JBool (eq_str (field ledgerData ''ISCOSTCENTRESON'') ''Yes''))])]))"

definition fetchLedger :: "('a runtime_scheme) \<Rightarrow> jsval \<Rightarrow> jsval \<Rightarrow> err + jsval" where
  "fetchLedger rt ledgerName options =
     (if \<not> truthy ledgerName then Inl (Error ''Ledger name is required'')
      else
        rethrow ''Failed to fetch ledger: ''
          (bind_err (get (default_obj options) ''fromDate'') (\<lambda>fromDate.
           let filters = [(''LEDGERNAME'', ledgerName)]
                         @ filter_if ''FROMDATE'' fromDate
                         @ filter_if ''TODATE'' (field (default_obj options) ''toDate'');
               exportXml = buildExportRequest (numToString rt) ''Ledger Details'' filters in
           bind_err (sendRequest rt exportXml) (\<lambda>response.
           bind_err (parseLedgerResponse (field response ''data'')) (\<lambda>data.
             Inr (JObj
               [(''success'', JBool True), (''data'', data),
                (''ledgerName'', ledgerName)]))))))"

definition updatedLedgerData :: "jsval \<Rightarrow> jsval \<Rightarrow> jsval \<Rightarrow> err + jsval" where
  "updatedLedgerData ledgerName updates currentData =
     bind_err (get updates ''parent'') (\<lambda>updatesParent.
       Inr (JObj
         [(''name'', ledgerName),
          (''parent'', js_or updatesParent (field currentData ''parent'')),
          (''alias'', js_or (field updates ''alias'') (field currentData ''alias'')),
          (''openingBalance'',
             js_or (field updates ''openingBalance'') (field currentData ''openingBalance''))]))"

definition ledgerUpdateXml :: "(jsnum \<Rightarrow> string) \<Rightarrow> jsval \<Rightarrow> err + string" where
  "ledgerUpdateXml ns merged =
     bind_err (buildLedgerXml2 ns merged) (\<lambda>ledgerXml.
       Inr (replaceFirst actionCreate actionAlter ledgerXml))"

text \<open>The options every ledger import passes:
  \<open>{ reportName: 'All Masters', companyName: process.env.TALLY_COMPANY }\<close>.\<close>

definition masterOptions :: "('a runtime_scheme) \<Rightarrow> jsval" where
  "masterOptions rt =
     JObj [(''reportName'', JStr ''All Masters''), (''companyName'', TALLY_COMPANY rt)]"

definition updateLedger :: "('a runtime_scheme) \<Rightarrow> jsval \<Rightarrow> jsval \<Rightarrow> err + jsval" where
  "updateLedger rt ledgerName updates =
     (if \<not> truthy ledgerName then Inl (Error ''Ledger name is required'')
      else
        rethrow ''Failed to update ledger: ''
          (bind_err (fetchLedger rt ledgerName JUndefined) (\<lambda>currentLedger.
           bind_err (updatedLedgerData ledgerName updates (field currentLedger ''data''))
             (\<lambda>merged.
           bind_err (ledgerUpdateXml (numToString rt) merged) (\<lambda>updateXml.
           bind_err (buildImportRequest2 (numToString rt) (TALLY_COMPANY rt) updateXml
                       (masterOptions rt)) (\<lambda>importXml.
           bind_err (sendRequest rt importXml) (\<lambda>response.
             Inr (JObj
               [(''success'', JBool True),
                (''message'', JStr (''Ledger '' @ quoted (toStringJS (numToString rt) ledgerName)
                                     @ '' updated successfully'')),
                (''data'', field response ''data''),
                (''ledgerName'', ledgerName)]))))))))"



subsection \<open>StockItemService\<close>

definition parseStockItemResponse :: "jsval \<Rightarrow> err + jsval" where
  "parseStockItemResponse responseData =
     bind_err (locateTallyMessage responseData) (\<lambda>m.
       case m of
         None \<Rightarrow> Inr (JObj [])
       | Some tallyMessage \<Rightarrow>
           let stockData = js_or tallyMessage (JObj []) in
           Inr (JObj
             [(''name'', or_empty (field stockData ''NAME'')),
              (''parent'', or_empty (field stockData ''PARENT'')),
              (''alias'', or_empty (field stockData ''ALIAS'')),
              (''baseUnits'', or_empty (field stockData ''BASEUNITS'')),
              (''openingBalance'', JObj
                 [(''quantity'', parseFloat_or_0 (field stockData ''OPENINGBALANCE'')),
                  (''rate'', parseFloat_or_0 (field stockData ''OPENINGRATE'')),
                  (''value'', parseFloat_or_0 (field stockData ''OPENINGVALUE''))]),
              (''closingBalance'', JObj
                 [(''quantity'', parseFloat_or_0 (field stockData ''CLOSINGBALANCE'')),
                  (''rate'', parseFloat_or_0 (field stockData ''CLOSINGRATE'')),
                  (''value'', parseFloat_or_0 (field stockData ''CLOSINGVALUE''))])]))"

definition fetchStockItem :: "('a runtime_scheme) \<Rightarrow> jsval \<Rightarrow> jsval \<Rightarrow> err + jsval" where
  "fetchStockItem rt stockItemName options =
     (if \<not> truthy stockItemName then Inl (Error ''Stock item name is required'')
      else
        rethrow ''Failed to fetch stock item: ''
          (bind_err (get (default_obj options) ''asOn'') (\<lambda>asOn.
           let filters = [(''STOCKITEMNAME'', stockItemName)] @ filter_if ''ASON'' asOn;
               exportXml = buildExportRequest (numToString rt) ''Stock Item Details'' filters in
           bind_err (sendRequest rt exportXml) (\<lambda>response.
           bind_err (parseStockItemResponse (field response ''data'')) (\<lambda>data.
             Inr (JObj
               [(''success'', JBool True), (''data'', data),
                (''stockItemName'', stockItemName)]))))))"

definition updatedStockData :: "jsval \<Rightarrow> jsval \<Rightarrow> jsval \<Rightarrow> err + jsval" where
  "updatedStockData stockItemName updates currentData =
     bind_err (get updates ''parent'') (\<lambda>updatesParent.
       Inr (JObj
         [(''name'', stockItemName),
          (''parent'', js_or updatesParent (field currentData ''parent'')),
          (''baseUnits'', js_or (field updates ''baseUnits'') (field currentData ''baseUnits'')),
          (''alias'', js_or (field updates ''alias'') (field currentData ''alias'')),
          (''openingBalance'',
             js_or (field updates ''openingBalance'') (field currentData ''openingBalance''))]))"

definition stockItemUpdateXml :: "(jsnum \<Rightarrow> string) \<Rightarrow> jsval \<Rightarrow> err + string" where
  "stockItemUpdateXml ns merged =
     bind_err (buildStockItemXml ns merged) (\<lambda>stockXml.
       Inr (replaceFirst actionCreate actionAlter stockXml))"

definition updateStockItem :: "('a runtime_scheme) \<Rightarrow> jsval \<Rightarrow> jsval \<Rightarrow> err + jsval" where
  "updateStockItem rt stockItemName updates =
     (if \<not> truthy stockItemName then Inl (Error ''Stock item name is required'')
      else
        rethrow ''Failed to update stock item: ''
          (bind_err (fetchStockItem rt stockItemName JUndefined) (\<lambda>currentItem.
           bind_err (updatedStockData stockItemName updates (field currentItem ''data''))
             (\<lambda>merged.
           bind_err (stockItemUpdateXml (numToString rt) merged) (\<lambda>updateXml.
           bind_err (buildImportRequest2 (numToString rt) (TALLY_COMPANY rt) updateXml
                       JUndefined) (\<lambda>importXml.
           bind_err (sendRequest rt importXml) (\<lambda>response.
             Inr (JObj
               [(''success'', JBool True),
                (''message'',
                   JStr (''Stock item '' @ quoted (toStringJS (numToString rt) stockItemName)
                         @ '' updated successfully'')),
                (''data'', field response ''data''),
                (''stockItemName'', stockItemName)]))))))))"



text \<open>The arrow function mapped over the items of a stock summary.\<close>

definition parseSummaryItem :: "jsval \<Rightarrow> err + jsval" where
  "parseSummaryItem item =
     bind_err (get item ''NAME'') (\<lambda>itemName.
       Inr (JObj
         [(''name'', or_empty itemName),
          (''group'', or_empty (field item ''PARENT'')),
          (''closingQuantity'', parseFloat_or_0 (field item ''CLOSINGBALANCE'')),
          (''closingValue'', parseFloat_or_0 (field item ''CLOSINGVALUE'')),
          (''rate'', parseFloat_or_0 (field item ''RATE'')),
          (''baseUnits'', or_empty (field item ''BASEUNITS''))]))"

text \<open>A count, as a JavaScript number.\<close>

definition js_count :: "nat \<Rightarrow> jsval" where
  "js_count n = JNum (Fin (of_nat n))"

definition closingQuantity :: "jsval \<Rightarrow> jsnum" where
  "closingQuantity item = number_value (field item ''closingQuantity'')"

text \<open>The object \<open>_parseStockSummaryResponse\<close> returns for the parsed \<open>items\<close>.\<close>

definition stockSummaryOf :: "jsval list \<Rightarrow> jsval" where
  "stockSummaryOf items =
     (let totalValue =
            foldl (\<lambda>sum item. js_add sum (number_value (field item ''closingValue'')))
              (Fin 0) items in
      JObj
        [(''items'', JArr items),
         (''totalItems'', js_count (length items)),
         (''totalValue'', JNum totalValue),
         (''summary'', JObj
            [(''positiveStock'',
                js_count (length (filter (\<lambda>item. js_gt (closingQuantity item) (Fin 0)) items))),
             (''negativeStock'',
                js_count (length (filter (\<lambda>item. js_lt (closingQuantity item) (Fin 0)) items))),
             (''zeroStock'',
                js_count (length (filter (\<lambda>item. closingQuantity item = Fin 0) items)))])])"

definition parseStockSummaryResponse :: "jsval \<Rightarrow> err + jsval" where
  "parseStockSummaryResponse responseData =
     bind_err (locateTallyMessage responseData) (\<lambda>m.
       case m of
         None \<Rightarrow>
           Inr (JObj
             [(''items'', JArr []), (''totalItems'', JNum (Fin 0)), (''totalValue'', JNum (Fin 0)),
              (''summary'', JObj [(''positiveStock'', JNum (Fin 0)),
                                  (''negativeStock'', JNum (Fin 0)), (''zeroStock'', JNum (Fin 0))])])
       | Some tallyMessage \<Rightarrow>
           let summaryData = js_or tallyMessage (JObj []);
               stockItems = js_or (js_or (field summaryData ''STOCKITEMS'')
                                         (field summaryData ''TALLYMESSAGE'')) (JArr []);
               itemArray = as_array stockItems in
           bind_err (mapM_err parseSummaryItem itemArray) (\<lambda>items.
             Inr (stockSummaryOf items)))"





subsection \<open>CompanyService\<close>






section \<open>The validation rule in the words of the specification\<close>

text \<open>
  A required field is missing when it cannot be read or holds a falsy value
  (\<open>undefined\<close>, \<open>null\<close>, the empty string, ...).
\<close>

definition missing :: "jsval \<Rightarrow> string \<Rightarrow> bool" where
  "missing obj k = (case get obj k of Inl _ \<Rightarrow> True | Inr v \<Rightarrow> \<not> truthy v)"

text \<open>The amount of an entry as a signed decimal: the value of a finite number. No
  amount, a string, NaN and the infinities are not decimals.\<close>

definition decimal_amount :: "jsval \<Rightarrow> rat option" where
  "decimal_amount entry =
     (case field entry ''amount'' of JNum (Fin a) \<Rightarrow> Some a | _ \<Rightarrow> None)"

text \<open>An entry is invalid when it lacks a ledger name or its amount is not numeric or is
  zero.\<close>

definition invalid_entry :: "jsval \<Rightarrow> bool" where
  "invalid_entry entry =
     (missing entry ''ledgerName'' \<or> decimal_amount entry = None
      \<or> decimal_amount entry = Some 0)"

text \<open>The signed amounts of the entries of a voucher, in their order.\<close>

definition amounts :: "jsval \<Rightarrow> rat list" where
  "amounts v =
     map (\<lambda>entry. case decimal_amount entry of Some a \<Rightarrow> a | None \<Rightarrow> 0)
       (elements (field v ''ledgerEntries''))"

text \<open>
  The specification's validation error: a required field (voucher type, date, entry list)
  is missing, there are fewer than two entries, some entry is invalid, or the signed
  amounts sum to a value whose absolute value exceeds the tolerance \<open>0.01\<close>.
\<close>

definition invalid_voucher :: "jsval \<Rightarrow> bool" where
  "invalid_voucher v =
     (missing v ''voucherType'' \<or> missing v ''date''
      \<or> \<not> isArray (field v ''ledgerEntries'')
      \<or> length (elements (field v ''ledgerEntries'')) < 2
      \<or> (\<exists>entry \<in> set (elements (field v ''ledgerEntries'')). invalid_entry entry)
      \<or> 1 / 100 < \<bar>sum_list (amounts v)\<bar>)"

text \<open>
  The same rule with the sum taken the way a program in doubles takes it: from \<open>0\<close>, one
  entry after the other, each partial sum rounded; and with the tolerance the literal
  \<open>0.01\<close> denotes.
\<close>

definition double_sum :: "rat list \<Rightarrow> jsnum" where
  "double_sum xs = foldl (\<lambda>sum a. js_add sum (Fin a)) (Fin 0) xs"

definition rejected_voucher :: "jsval \<Rightarrow> bool" where
  "rejected_voucher v =
     (missing v ''voucherType'' \<or> missing v ''date''
      \<or> \<not> isArray (field v ''ledgerEntries'')
      \<or> length (elements (field v ''ledgerEntries'')) < 2
      \<or> (\<exists>entry \<in> set (elements (field v ''ledgerEntries'')). invalid_entry entry)
      \<or> js_gt (js_abs (double_sum (amounts v))) (fl (1 / 100)))"

text \<open>The vouchers none of whose amounts is NaN or an infinity.\<close>

definition finite_amounts :: "jsval \<Rightarrow> bool" where
  "finite_amounts v =
     (\<forall>entry \<in> set (elements (field v ''ledgerEntries'')).
        field entry ''amount'' \<notin> {JNum NaN, JNum PInf, JNum NInf})"

text \<open>The vouchers whose amounts are whole numbers small enough for every partial sum to
  be a double.\<close>

definition whole_amounts :: "jsval \<Rightarrow> bool" where
  "whole_amounts v =
     ((\<forall>a \<in> set (amounts v). a \<in> \<int>) \<and> sum_list (map abs (amounts v)) \<le> 2 ^ 53)"

section \<open>The text of an element\<close>

text \<open>
  \<open>text_after pat s\<close> is what follows the first occurrence of \<open>pat\<close> in \<open>s\<close>. The text of the
  first element \<open><tag>\<close> of an XML string is what follows its start tag, up to the next
  markup: what the XML parser hands over for an element that holds text only.
\<close>

fun text_after :: "string \<Rightarrow> string \<Rightarrow> string option" where
  "text_after pat [] = (if pat = [] then Some [] else None)"
| "text_after pat (c # cs) =
     (if prefix pat (c # cs) then Some (drop (length pat) (c # cs)) else text_after pat cs)"

definition elementText :: "string \<Rightarrow> string \<Rightarrow> string option" where
  "elementText tag xml =
     map_option (takeWhile (\<lambda>c. c \<noteq> CHR ''<'')) (text_after (''<'' @ tag @ ''>'') xml)"

text \<open>A parsed node that holds, under each of the given tags, the text of that element of
  an XML string.\<close>

definition holds_text :: "jsval \<Rightarrow> string \<Rightarrow> string list \<Rightarrow> bool" where
  "holds_text node xml tags =
     (\<forall>tag \<in> set tags. \<exists>t. elementText tag xml = Some t \<and> field node tag = JStr t)"

section \<open>The body of a response\<close>


section \<open>Occurrences of a pair of characters\<close>

text \<open>Whether two given characters occur next to each other in a string: a string
  without the pair \<open>N=\<close> cannot contain the directive \<open>ACTION="Create"\<close>.\<close>

fun has_pair :: "char \<Rightarrow> char \<Rightarrow> string \<Rightarrow> bool" where
  "has_pair a b (x # y # zs) = ((x = a \<and> y = b) \<or> has_pair a b (y # zs))"
| "has_pair a b _ = False"

section \<open>The text before the action directive\<close>

text \<open>What \<open>voucherTemplate\<close> and \<open>ledgerTemplate2\<close> start with: the text up to the
  first interpolation, the escaped voucher type or ledger name.\<close>

definition voucherHead :: string where
  \<open>voucherHead =
     ''<TALLYMESSAGE xmlns:UDF="TallyUDF">\<newline>''
       @ ''            <VOUCHER REMOTEID="" VCHKEY="" VCHTYPE="''\<close>

definition ledgerHead :: string where
  \<open>ledgerHead =
     ''<TALLYMESSAGE xmlns:UDF="TallyUDF">\<newline>''
       @ ''            <LEDGER NAME="''\<close>

section \<open>Sample inputs\<close>

text \<open>
  A sample engine for evaluating the model on concrete inputs. Its \<open>Number::toString\<close>
  prints an integer in decimal, as JavaScript does below \<open>10^21\<close>, and any other finite
  value with up to twenty fraction digits; its string-to-number conversion reads decimal
  literals; its \<open>Date\<close> constructor knows the date strings of the samples.
\<close>

fun frac_digits :: "nat \<Rightarrow> rat \<Rightarrow> string" where
  "frac_digits 0 r = []"
| "frac_digits (Suc n) r =
     (if r = 0 then []
      else digit_char (nat \<lfloor>r * 10\<rfloor>) # frac_digits n (r * 10 - of_int \<lfloor>r * 10\<rfloor>))"

definition showRat :: "rat \<Rightarrow> string" where
  "showRat r =
     showNat (nat \<lfloor>r\<rfloor>)
       @ (if r = of_int \<lfloor>r\<rfloor> then [] else CHR ''.'' # frac_digits 20 (r - of_int \<lfloor>r\<rfloor>))"

fun showNum :: "jsnum \<Rightarrow> string" where
  "showNum NaN = ''NaN''"
| "showNum PInf = ''Infinity''"
| "showNum NInf = ''-Infinity''"
| "showNum (Fin r) = (if r < 0 then CHR ''-'' # showRat (- r) else showRat r)"

definition sample_newDate :: "jsval \<Rightarrow> js_date" where
  "sample_newDate v =
     (if v = JStr ''15-Sep-2023'' then LocalDate 2023 8 15
      else if v = JStr ''05-Sep-2023'' then LocalDate 2023 8 5
      else if v = JStr ''0999-01-05T00:00:00'' then LocalDate 999 0 5
      else InvalidDate)"

definition sample_engine :: engine where
  "sample_engine =
     \<lparr> numToString = showNum,
       strToNumber = (\<lambda>s. if dropWhile is_space s = [] then Fin 0 else parseFloat_str s),
       newDate = sample_newDate \<rparr>"

text \<open>A runtime whose transport answers every request with the same body, which the
  parser reads as the given tree.\<close>

definition answering :: "jsval \<Rightarrow> jsval \<Rightarrow> runtime" where
  "answering env tree =
     engine.extend sample_engine
       (runtime.fields (\<lambda>request. Inr ''<response/>'') (\<lambda>body. Inr tree)
          (LocalDate 2023 8 15) env)"

text \<open>The tree of a response that reports one created object and no error.\<close>

definition ok_response :: jsval where
  "ok_response =
     JObj [(''ENVELOPE'', JObj [(''BODY'', JObj [(''DATA'',
       JObj [(''IMPORTRESULT'', JObj [(''CREATED'', JStr ''1'')])])])])]"

text \<open>The balanced voucher of the end-to-end scenario (four entries summing to zero), and the same
  voucher with its last entry changed to \<open>-901\<close>.\<close>

definition sample_entry :: "string \<Rightarrow> rat \<Rightarrow> jsval" where
  "sample_entry ledgerName amount =
     JObj [(''ledgerName'', JStr ledgerName), (''amount'', JNum (Fin amount))]"

definition balanced_voucher :: jsval where
  "balanced_voucher =
     JObj [(''voucherType'', JStr ''Sales''), (''date'', JStr ''15-Sep-2023''),
           (''ledgerEntries'',
              JArr [sample_entry ''A'' 11800, sample_entry ''B'' (- 10000),
                    sample_entry ''C'' (- 900), sample_entry ''D'' (- 900)])]"

definition unbalanced_voucher :: jsval where
  "unbalanced_voucher =
     JObj [(''voucherType'', JStr ''Sales''), (''date'', JStr ''15-Sep-2023''),
           (''ledgerEntries'',
              JArr [sample_entry ''A'' 11800, sample_entry ''B'' (- 10000),
                    sample_entry ''C'' (- 900), sample_entry ''D'' (- 901)])]"

text \<open>Two entries cancel and the \<open>1\<close> between them is lost: \<open>1e16 + 1\<close> is \<open>1e16\<close> in
  doubles.\<close>

definition absorbed_voucher :: jsval where
  "absorbed_voucher =
     JObj [(''voucherType'', JStr ''Journal''), (''date'', JStr ''15-Sep-2023''),
           (''ledgerEntries'',
              JArr [sample_entry ''A'' 10000000000000000, sample_entry ''B'' 1,
                    sample_entry ''C'' (- 10000000000000000)])]"

text \<open>The amounts sum to zero, the doubles do not: \<open>2 ^ 53 + 2\<close> and \<open>1\<close> make
  \<open>2 ^ 53 + 4\<close>.\<close>

definition carried_voucher :: jsval where
  "carried_voucher =
     JObj [(''voucherType'', JStr ''Journal''), (''date'', JStr ''15-Sep-2023''),
           (''ledgerEntries'',
              JArr [sample_entry ''A'' 9007199254740994, sample_entry ''B'' 1,
                    sample_entry ''C'' (- 9007199254740994), sample_entry ''D'' (- 1)])]"

text \<open>Both amounts are NaN.\<close>

definition nan_voucher :: jsval where
  "nan_voucher =
     JObj [(''voucherType'', JStr ''Journal''), (''date'', JStr ''15-Sep-2023''),
           (''ledgerEntries'',
              JArr [JObj [(''ledgerName'', JStr ''A''), (''amount'', JNum NaN)],
                    JObj [(''ledgerName'', JStr ''B''), (''amount'', JNum NaN)]])]"



text \<open>The tree the XML parser returns for the \<open>LEDGERENTRIES.LIST\<close> element that the
  builder emits for the entry \<open>{ ledgerName: 'Sales', amount: -10000 }\<close>.\<close>

definition sales_node :: jsval where
  "sales_node =
     JObj [(''OLDAUDITENTRYIDS.LIST'',
              JObj [(''TYPE'', JStr ''Number''), (''OLDAUDITENTRYIDS'', JStr ''-1'')]),
           (''LEDGERNAME'', JStr ''Sales''),
           (''ISDEEMEDPOSITIVE'', JStr ''No''),
           (''AMOUNT'', JStr ''10000''),
           (''BILLALLOCATIONS.LIST'',
              JObj [(''NAME'', JStr []), (''BILLTYPE'', JStr ''New Ref''),
                    (''AMOUNT'', JStr ''10000'')])]"



text \<open>A response with a payload: \<open>ENVELOPE.BODY.EXPORTDATA.REQUESTDATA.TALLYMESSAGE\<close>.\<close>

definition wrap_message :: "jsval \<Rightarrow> jsval" where
  "wrap_message tallyMessage =
     JObj [(''ENVELOPE'', JObj [(''BODY'', JObj [(''EXPORTDATA'',
       JObj [(''REQUESTDATA'', JObj [(''TALLYMESSAGE'', tallyMessage)])])])])]"



text \<open>A stock summary with three items and a vendor total that disagrees with them, and
  a voucher summary that carries vendor totals only.\<close>

definition stock_item_node :: "string \<Rightarrow> string \<Rightarrow> string \<Rightarrow> jsval" where
  "stock_item_node name closingBalance closingValue =
     JObj [(''NAME'', JStr name), (''CLOSINGBALANCE'', JStr closingBalance),
           (''CLOSINGVALUE'', JStr closingValue)]"

definition stock_summary_tree :: jsval where
  "stock_summary_tree =
     wrap_message (JObj
       [(''TOTALVALUE'', JStr ''999''),
        (''STOCKITEMS'', JArr [stock_item_node ''Widget A'' ''10'' ''500'',
                               stock_item_node ''Widget B'' ''-2'' ''-100'',
                               stock_item_node ''Widget C'' ''0'' ''0''])])"

definition voucher_summary_tree :: jsval where
  "voucher_summary_tree =
     wrap_message (JObj [(''TOTALCOUNT'', JStr ''7''), (''TOTALAMOUNT'', JStr ''1234'')])"

text \<open>A fetched ledger, and the stock item update
  \<open>updateStockItem('Widget A', { alias: 'Widget-A-v2' })\<close>: the item as fetched and the
  merged payload.\<close>

definition sample_ledger :: jsval where
  "sample_ledger =
     JObj [(''name'', JStr ''ABC Corporation''), (''parent'', JStr ''Sundry Debtors''),
           (''alias'', JStr ''ABC Corp''),
           (''openingBalance'',
              JObj [(''amount'', JStr ''15000''), (''isBillWise'', JBool False),
                    (''isCostCentre'', JBool False)])]"

definition fetched_stock_item :: jsval where
  "fetched_stock_item =
     JObj [(''name'', JStr ''Widget A''), (''parent'', JStr ''Raw Materials''),
           (''alias'', JStr ''WGT-A''), (''baseUnits'', JStr ''Nos''),
           (''openingBalance'', JObj [(''quantity'', JNum (Fin 100)), (''rate'', JNum (Fin 50)),
                                      (''value'', JNum (Fin 5000))]),
           (''closingBalance'', JObj [(''quantity'', JNum (Fin 0)), (''rate'', JNum (Fin 0)),
                                      (''value'', JNum (Fin 0))])]"

definition merged_stock_item :: jsval where
  "merged_stock_item =
     JObj [(''name'', JStr ''Widget A''), (''parent'', JStr ''Raw Materials''),
           (''baseUnits'', JStr ''Nos''), (''alias'', JStr ''Widget-A-v2''),
           (''openingBalance'', JObj [(''quantity'', JNum (Fin 100)), (''rate'', JNum (Fin 50)),
                                      (''value'', JNum (Fin 5000))])]"

section \<open>Basic facts\<close>

subsection \<open>Rounding\<close>

text \<open>The search finds the exponent of the last place; \<open>fl\<close> is the identity on the
  integers up to \<open>2 ^ 53\<close>; the literal \<open>0.01\<close> is the double
  \<open>5764607523034235 / 2 ^ 59\<close>.\<close>

lemma overflow_bound_pos: "0 < overflow_bound"
  by (simp add: overflow_bound_def)

lemma overflow_small: "\<bar>r\<bar> \<le> 2 ^ 54 \<Longrightarrow> overflow r = Fin r"
proof -
  assume a: "\<bar>r\<bar> \<le> 2 ^ 54"
  have "(2::rat) ^ 54 < 2 ^ 1024" by (rule power_strict_increasing) auto
  with a have "\<bar>r\<bar> < overflow_bound" by (simp add: overflow_bound_def)
  then show ?thesis by (auto simp: overflow_def)
qed

lemma rne_of_int [simp]: "rne (of_int n) = n"
  by (simp add: rne_def)

lemma rne_0 [simp]: "rne 0 = 0"
  by (simp add: rne_def)

lemma ulp_exponent_found:
  "2 powi (e + 52) \<le> x \<Longrightarrow> x < 2 powi (e + 53) \<Longrightarrow> e \<le> e0 \<Longrightarrow> nat (e0 - e) \<le> n
     \<Longrightarrow> ulp_exponent n e0 x = e"
proof (induction n arbitrary: e0)
  case 0
  then show ?case by simp
next
  case (Suc n)
  show ?case
  proof (cases "e0 = e")
    case True
    with Suc.prems show ?thesis by simp
  next
    case False
    with Suc.prems have lt: "e < e0" by simp
    then have "(2::rat) powi (e + 53) \<le> 2 powi (e0 + 52)"
      by (intro power_int_increasing) auto
    with Suc.prems have "\<not> 2 powi (e0 + 52) \<le> x" by simp
    moreover have "ulp_exponent n (e0 - 1) x = e"
      using Suc.prems lt by (intro Suc.IH) auto
    ultimately show ?thesis by simp
  qed
qed

lemma ulp_exponent_least:
  "x < 2 powi (e0 - int n + 53) \<Longrightarrow> ulp_exponent n e0 x = e0 - int n"
proof (induction n arbitrary: e0)
  case 0
  then show ?case by simp
next
  case (Suc n)
  have "(2::rat) powi (e0 - int (Suc n) + 53) \<le> 2 powi (e0 + 52)"
    by (intro power_int_increasing) auto
  with Suc.prems have "\<not> 2 powi (e0 + 52) \<le> x" by simp
  moreover have "ulp_exponent n (e0 - 1) x = e0 - 1 - int n"
    using Suc.prems by (intro Suc.IH) (simp add: algebra_simps)
  ultimately show ?case by simp
qed

lemma fl_scaled:
  assumes "2 powi (e + 52) \<le> \<bar>x\<bar>" "\<bar>x\<bar> < 2 powi (e + 53)" "- 1074 \<le> e" "e \<le> 971"
  shows "fl x = overflow (of_int (rne (x / 2 powi e)) * 2 powi e)"
proof -
  have "ulp_exponent 2045 971 \<bar>x\<bar> = e"
    using assms by (intro ulp_exponent_found) auto
  then show ?thesis by (simp add: fl_def)
qed

lemma fl_0 [simp]: "fl 0 = Fin 0"
proof -
  have "ulp_exponent 2045 971 0 = 971 - int 2045"
    by (rule ulp_exponent_least) simp
  then show ?thesis by (simp add: fl_def overflow_small)
qed

lemma fl_of_int:
  assumes "\<bar>n\<bar> \<le> 2 ^ 53"
  shows "fl (of_int n) = Fin (of_int n)"
proof (cases "n = 0")
  case True
  then show ?thesis by simp
next
  case False
  define k where "k = floorlog 2 (nat \<bar>n\<bar>)"
  have pos: "0 < nat \<bar>n\<bar>" using False by simp
  have b: "2 ^ (k - 1) \<le> nat \<bar>n\<bar> \<and> nat \<bar>n\<bar> < 2 ^ k"
    unfolding k_def using floorlog_bounds [OF pos, of 2] by simp
  have k1: "1 \<le> k" using b pos by (cases k) auto
  have k54: "k \<le> 54"
  proof (rule ccontr)
    assume "\<not> k \<le> 54"
    then have "54 \<le> k - 1" by simp
    then have "(2::nat) ^ 54 \<le> 2 ^ (k - 1)" by (intro power_increasing) auto
    with b have "(2::nat) ^ 54 \<le> nat \<bar>n\<bar>" by (blast intro: order_trans)
    then have "(2::int) ^ 54 \<le> \<bar>n\<bar>" by (simp add: le_nat_iff)
    with assms show False by simp
  qed
  define e where "e = int k - 53"
  have lo: "(2::rat) powi (e + 52) \<le> \<bar>of_int n\<bar>"
  proof -
    have "(2::rat) powi (e + 52) = 2 ^ (k - 1)"
      using k1 by (simp add: e_def power_int_def nat_diff_distrib)
    also have "\<dots> = of_nat (2 ^ (k - 1))" by simp
    also have "\<dots> \<le> of_nat (nat \<bar>n\<bar>)" using b by (simp only: of_nat_le_iff)
    also have "\<dots> = \<bar>of_int n\<bar>" by simp
    finally show ?thesis .
  qed
  have hi: "\<bar>of_int n :: rat\<bar> < 2 powi (e + 53)"
  proof -
    have "\<bar>of_int n :: rat\<bar> = of_nat (nat \<bar>n\<bar>)" by simp
    also have "\<dots> < of_nat (2 ^ k)" using b by (simp only: of_nat_less_iff)
    also have "\<dots> = 2 powi (e + 53)" by (simp add: e_def power_int_def)
    finally show ?thesis .
  qed
  have fl: "fl (of_int n) = overflow (of_int (rne (of_int n / 2 powi e)) * 2 powi e)"
    using lo hi k1 k54 by (intro fl_scaled) (auto simp: e_def)
  have ex: "\<exists>m. (of_int n :: rat) / 2 powi e = of_int m"
  proof (cases "e \<le> 0")
    case True
    then have "(of_int n :: rat) / 2 powi e = of_int (n * 2 ^ nat (- e))"
      by (simp add: power_int_def field_simps)
    then show ?thesis by blast
  next
    case False
    with k54 have e1: "e = 1" by (simp add: e_def)
    with k1 have k: "k = 54" by (simp add: e_def)
    from b k have "(2::nat) ^ 53 \<le> nat \<bar>n\<bar>" by auto
    then have "(2::int) ^ 53 \<le> \<bar>n\<bar>" by (simp add: le_nat_iff)
    with assms have "\<bar>n\<bar> = 2 ^ 53" by simp
    then have "n = 2 * 2 ^ 52 \<or> n = - (2 * 2 ^ 52)" by (auto simp: abs_if split: if_splits)
    then have "(of_int n :: rat) / 2 powi e = of_int (n div 2)"
      using e1 by auto
    then show ?thesis by blast
  qed
  then obtain m where m: "(of_int n :: rat) / 2 powi e = of_int m" by blast
  then have "of_int (rne (of_int n / 2 powi e)) * 2 powi e = (of_int n :: rat)"
    by (simp add: field_simps)
  moreover have "\<bar>of_int n :: rat\<bar> \<le> 2 ^ 54"
  proof -
    have "\<bar>n\<bar> \<le> 2 ^ 54" using assms by simp
    then have "(of_int \<bar>n\<bar> :: rat) \<le> of_int (2 ^ 54)" by (simp only: of_int_le_iff)
    then show ?thesis by simp
  qed
  ultimately show ?thesis using fl by (simp add: overflow_small)
qed

lemma fl_numeral:
  "numeral k \<le> (9007199254740992::int) \<Longrightarrow> fl (numeral k) = Fin (numeral k)"
  "numeral k \<le> (9007199254740992::int) \<Longrightarrow> fl (- numeral k) = Fin (- numeral k)"
  "fl 1 = Fin 1" "fl (- 1) = Fin (- 1)"
  using fl_of_int [of "numeral k"] fl_of_int [of "- numeral k"] fl_of_int [of 1] fl_of_int [of "- 1"]
  by simp_all

lemma rne_div:
  assumes "0 < b"
  shows "rne (of_int a / of_int b) =
     (if 2 * (a mod b) < b then a div b
      else if b < 2 * (a mod b) then a div b + 1
      else if even (a div b) then a div b else a div b + 1)"
proof -
  have f: "\<lfloor>(of_int a :: rat) / of_int b\<rfloor> = a div b"
    by (rule floor_divide_of_int_eq)
  have "(of_int a :: rat) = of_int (b * (a div b) + a mod b)"
    by simp
  also have "\<dots> = of_int b * of_int (a div b) + of_int (a mod b)"
    by (simp only: of_int_add of_int_mult)
  finally have d: "(of_int a :: rat) / of_int b - of_int (a div b) = of_int (a mod b) / of_int b"
    using assms by (simp add: field_simps)
  have lt: "(of_int (a mod b) :: rat) / of_int b < 1 / 2 \<longleftrightarrow> 2 * (a mod b) < b"
  proof -
    have "(of_int (a mod b) :: rat) / of_int b < 1 / 2 \<longleftrightarrow>
        (of_int (2 * (a mod b)) :: rat) < of_int b"
      using assms by (simp add: field_simps)
    then show ?thesis by (simp only: of_int_less_iff)
  qed
  have gt: "1 / 2 < (of_int (a mod b) :: rat) / of_int b \<longleftrightarrow> b < 2 * (a mod b)"
  proof -
    have "1 / 2 < (of_int (a mod b) :: rat) / of_int b \<longleftrightarrow>
        (of_int b :: rat) < of_int (2 * (a mod b))"
      using assms by (simp add: field_simps)
    then show ?thesis by (simp only: of_int_less_iff)
  qed
  show ?thesis
    unfolding rne_def Let_def f d lt gt ..
qed

lemma rne_numeral:
  "rne (numeral a / numeral b) =
     (if 2 * (numeral a mod numeral b) < (numeral b :: int) then numeral a div numeral b
      else if (numeral b :: int) < 2 * (numeral a mod numeral b) then numeral a div numeral b + 1
      else if even (numeral a div numeral b :: int) then numeral a div numeral b
      else numeral a div numeral b + 1)"
  using rne_div [of "numeral b" "numeral a"] by simp

lemma tolerance_value: "fl (1 / 100) = Fin (5764607523034235 / 576460752303423488)"
  using fl_scaled [of "- 59" "1 / 100"]
  by (simp add: rne_numeral overflow_small)


lemma bind_err_Inr [simp]: "bind_err (Inr x) f = f x"
  by (simp add: bind_err_def)

lemma bind_err_Inl [simp]: "bind_err (Inl e) f = Inl e"
  by (simp add: bind_err_def)

lemma get_Inr_any: "get v k = Inr x \<Longrightarrow> get v k' = Inr (field v k')"
  by (cases v) (auto simp: field_def)

lemma field_get: "get v k = Inr x \<Longrightarrow> field v k = x"
  by (simp add: field_def)

lemma isArray_elements: "isArray v \<Longrightarrow> v = JArr (elements v)"
  by (cases v) (auto simp: elements_def)

lemma isArray_truthy: "isArray v \<Longrightarrow> truthy v"
  by (cases v) auto

lemma mapM_err_ok:
  "(\<And>x. x \<in> set xs \<Longrightarrow> \<exists>y. f x = Inr y) \<Longrightarrow> \<exists>ys. mapM_err f xs = Inr ys"
proof (induction xs)
  case Nil
  show ?case by simp
next
  case (Cons x xs)
  from Cons.prems obtain y where y: "f x = Inr y" by force
  from Cons obtain ys where "mapM_err f xs = Inr ys" by force
  with y show ?case by simp
qed

lemma not_nullish_get: "v \<noteq> JUndefined \<Longrightarrow> v \<noteq> JNull \<Longrightarrow> get v k = Inr (field v k)"
  by (cases v) (auto simp: field_def)




lemma locate_wrap_message: "locateTallyMessage (wrap_message m) = Inr (Some m)"
  by (simp add: locateTallyMessage_def wrap_message_def js_or_def js_and_def field_def)


text \<open>The sample runtime answers every request with its tree.\<close>

lemma sendRequest_answering:
  "sendRequest (answering env ok_response) request =
     Inr (JObj [(''success'', JBool True), (''data'', ok_response),
                (''rawXml'', JStr ''<response/>'')])"
  by (simp add: sendRequest_def parseResponse_def answering_def ok_response_def rethrow_def
      runtime.defs engine.defs js_or_def field_def)

section \<open>Voucher validation\<close>

lemma validateEntries_isl:
  assumes "\<forall>e \<in> set es. field e ''amount'' \<notin> {JNum NaN, JNum PInf, JNum NInf}"
  shows "isl (validateEntries es) \<longleftrightarrow> (\<exists>e \<in> set es. invalid_entry e)"
  using assms
proof (induction es)
  case Nil
  show ?case by simp
next
  case (Cons e es)
  have d: "decimal_amount e = None \<longleftrightarrow> \<not> is_number (field e ''amount'')"
  proof (cases "field e ''amount''")
    case (JNum n)
    with Cons.prems show ?thesis by (cases n) (simp_all add: decimal_amount_def)
  qed (simp_all add: decimal_amount_def)
  have z: "decimal_amount e = Some 0 \<longleftrightarrow> field e ''amount'' = JNum (Fin 0)"
    by (auto simp: decimal_amount_def split: jsval.splits jsnum.splits)
  show ?case
  proof (cases "get e ''ledgerName''")
    case (Inl a)
    then show ?thesis by (simp add: invalid_entry_def missing_def)
  next
    case (Inr n)
    then show ?thesis
      using Cons.IH Cons.prems by (auto simp: invalid_entry_def missing_def d z)
  qed
qed

lemma valid_entry_amount:
  "\<not> invalid_entry e \<Longrightarrow>
     number_value (field e ''amount'')
       = Fin (case decimal_amount e of Some a \<Rightarrow> a | None \<Rightarrow> 0)"
  by (auto simp: invalid_entry_def decimal_amount_def number_value_def
      split: jsval.splits jsnum.splits)

lemma totalAmount_double_sum:
  assumes "\<forall>e \<in> set (elements (field v ''ledgerEntries'')). \<not> invalid_entry e"
  shows "totalAmount (elements (field v ''ledgerEntries'')) = double_sum (amounts v)"
proof -
  have "foldl (\<lambda>sum entry. js_add sum (number_value (field entry ''amount''))) z es
      = foldl (\<lambda>sum a. js_add sum (Fin a)) z
          (map (\<lambda>entry. case decimal_amount entry of Some a \<Rightarrow> a | None \<Rightarrow> 0) es)"
    if "\<forall>e \<in> set es. \<not> invalid_entry e" for z es
    using that by (induction es arbitrary: z) (simp_all add: valid_entry_amount)
  with assms show ?thesis
    by (simp add: totalAmount_def double_sum_def amounts_def)
qed

lemma validateVoucherData_isl:
  assumes "finite_amounts v"
  shows "isl (validateVoucherData v) \<longleftrightarrow> rejected_voucher v"
proof (cases "get v ''voucherType''")
  case (Inl a)
  then show ?thesis
    by (simp add: validateVoucherData_def rejected_voucher_def missing_def)
next
  case (Inr t)
  have d: "get v ''date'' = Inr (field v ''date'')"
    using Inr by (rule get_Inr_any)
  let ?es = "elements (field v ''ledgerEntries'')"
  have e: "isl (validateEntries ?es) \<longleftrightarrow> (\<exists>e \<in> set ?es. invalid_entry e)"
    using assms by (intro validateEntries_isl) (simp add: finite_amounts_def)
  show ?thesis
  proof (cases "validateEntries ?es")
    case (Inl a)
    with e Inr d show ?thesis
      by (auto simp: validateVoucherData_def rejected_voucher_def missing_def isArray_truthy)
  next
    case r: (Inr u)
    with e have ok: "\<forall>e \<in> set ?es. \<not> invalid_entry e" by auto
    then have "totalAmount ?es = double_sum (amounts v)" by (rule totalAmount_double_sum)
    with r ok Inr d show ?thesis
      by (auto simp: validateVoucherData_def rejected_voucher_def missing_def isArray_truthy)
  qed
qed

text \<open>Sums of whole numbers: no partial sum is rounded.\<close>

lemma double_sum_whole:
  assumes "\<forall>a \<in> set xs. a \<in> \<int>" and "s \<in> \<int>"
    and "\<bar>s\<bar> + sum_list (map abs xs) \<le> 2 ^ 53"
  shows "foldl (\<lambda>sum a. js_add sum (Fin a)) (Fin s) xs = Fin (s + sum_list xs)"
  using assms
proof (induction xs arbitrary: s)
  case Nil
  show ?case by simp
next
  case (Cons a xs)
  from Cons.prems obtain i j where ij: "s = of_int i" "a = of_int j"
    by (auto elim!: Ints_cases)
  have b: "\<bar>s + a\<bar> \<le> 2 ^ 53"
  proof -
    have "0 \<le> sum_list (map abs xs)" by (induction xs) auto
    then have "\<bar>s + a\<bar> \<le> \<bar>s\<bar> + sum_list (map abs (a # xs))" by simp
    with Cons.prems show ?thesis by linarith
  qed
  then have "(of_int \<bar>i + j\<bar> :: rat) \<le> of_int (2 ^ 53)" by (simp add: ij)
  then have "\<bar>i + j\<bar> \<le> 2 ^ 53" by (simp only: of_int_le_iff)
  then have "fl (of_int (i + j)) = Fin (of_int (i + j))" by (rule fl_of_int)
  then have step: "js_add (Fin s) (Fin a) = Fin (s + a)" by (simp add: ij)
  have "foldl (\<lambda>sum a. js_add sum (Fin a)) (Fin (s + a)) xs = Fin (s + a + sum_list xs)"
    using Cons.prems by (intro Cons.IH) (auto simp: ij)
  with step show ?case by (simp add: add.assoc)
qed

lemma whole_amounts_sum:
  assumes "whole_amounts v"
  shows "double_sum (amounts v) = Fin (sum_list (amounts v))"
  using double_sum_whole [of "amounts v" 0] assms
  by (simp add: whole_amounts_def double_sum_def)

lemma sum_list_Ints: "\<forall>a \<in> set xs. a \<in> \<int> \<Longrightarrow> sum_list xs \<in> (\<int> :: rat set)"
  by (induction xs) auto

lemma whole_tolerance:
  assumes "s \<in> (\<int> :: rat set)"
  shows "js_gt (js_abs (Fin s)) (fl (1 / 100)) \<longleftrightarrow> 1 / 100 < \<bar>s\<bar>"
proof -
  from assms obtain i where i: "s = of_int i" by (auto elim: Ints_cases)
  have "(5764607523034235 / 576460752303423488 < \<bar>of_int i :: rat\<bar>) \<longleftrightarrow> i \<noteq> 0"
  proof (cases "i = 0")
    case False
    then have "1 \<le> \<bar>i\<bar>" by simp
    then have "(1::rat) \<le> of_int \<bar>i\<bar>" by (simp only: of_int_1_le_iff)
    then show ?thesis using False by simp
  qed simp
  moreover have "(1 / 100 < \<bar>of_int i :: rat\<bar>) \<longleftrightarrow> i \<noteq> 0"
  proof (cases "i = 0")
    case False
    then have "1 \<le> \<bar>i\<bar>" by simp
    then have "(1::rat) \<le> of_int \<bar>i\<bar>" by (simp only: of_int_1_le_iff)
    then show ?thesis using False by simp
  qed simp
  ultimately show ?thesis by (simp add: tolerance_value i)
qed

lemma whole_rejected_iff:
  assumes "whole_amounts v"
  shows "rejected_voucher v \<longleftrightarrow> invalid_voucher v"
proof -
  have "sum_list (amounts v) \<in> \<int>"
    using assms by (intro sum_list_Ints) (simp add: whole_amounts_def)
  then have "js_gt (js_abs (Fin (sum_list (amounts v)))) (fl (1 / 100))
      \<longleftrightarrow> 1 / 100 < \<bar>sum_list (amounts v)\<bar>"
    by (rule whole_tolerance)
  then have t: "js_gt (js_abs (double_sum (amounts v))) (fl (1 / 100))
      \<longleftrightarrow> 1 / 100 < \<bar>sum_list (amounts v)\<bar>"
    by (simp only: whole_amounts_sum [OF assms])
  show ?thesis
    unfolding rejected_voucher_def invalid_voucher_def t ..
qed


text \<open>Building a voucher that passed validation.\<close>

lemma ledgerEntryXml_ok:
  "get e ''ledgerName'' = Inr n \<Longrightarrow> \<exists>x. ledgerEntryXml eng e = Inr x"
  by (simp add: ledgerEntryXml_def Let_def)

lemma valid_entry_readable:
  "\<not> invalid_entry e \<Longrightarrow> \<exists>n. get e ''ledgerName'' = Inr n"
  by (cases "get e ''ledgerName''") (auto simp: invalid_entry_def missing_def)

lemma ledgerEntryXml_opens:
  "ledgerEntryXml eng e = Inr x \<Longrightarrow>
     prefix (''\<newline>'' @ ''            <LEDGERENTRIES.LIST>\<newline>'') x"
  by (cases "get e ''ledgerName''")
     (auto simp: ledgerEntryXml_def ledgerEntryTemplate_def Let_def)

lemma mapM_err_set:
  "mapM_err f xs = Inr ys \<Longrightarrow> x \<in> set xs \<Longrightarrow> \<exists>y \<in> set ys. f x = Inr y"
proof (induction xs arbitrary: ys)
  case Nil
  then show ?case by simp
next
  case (Cons a xs)
  from Cons.prems(1) obtain b bs where b: "f a = Inr b" "mapM_err f xs = Inr bs" "ys = b # bs"
    by (cases "f a"; cases "mapM_err f xs") auto
  with Cons show ?case by auto
qed

lemma sublist_skip: "sublist x ys \<Longrightarrow> sublist x (zs @ ys)"
  unfolding sublist_def by (metis append.assoc)

lemma sublist_here: "sublist x (x @ ys)"
  by (rule prefix_imp_sublist) simp

lemma sublist_concat: "y \<in> set ys \<Longrightarrow> sublist y (concat ys)"
proof (induction ys)
  case Nil
  then show ?case by simp
next
  case (Cons a ys)
  show ?case
  proof (cases "y = a")
    case True
    then show ?thesis by (simp add: sublist_here)
  next
    case False
    with Cons have "sublist y (concat ys)" by simp
    then show ?thesis by (simp add: sublist_skip)
  qed
qed

lemma voucherTemplate_entries: "sublist e (voucherTemplate a b c d e)"
  unfolding voucherTemplate_def
  by (rule sublist_here | rule sublist_skip)+

lemma voucherTemplate_opens:
  "prefix (voucherHead @ a @ CHR 0x22 # CHR '' '' # actionCreate) (voucherTemplate a b c d e)"
  by (simp add: voucherTemplate_def voucherHead_def actionCreate_def)

lemma buildVoucherXml_readable:
  assumes t: "get v ''voucherType'' = Inr t"
    and arr: "isArray (field v ''ledgerEntries'')"
    and es: "\<forall>e \<in> set (elements (field v ''ledgerEntries'')). \<exists>n. get e ''ledgerName'' = Inr n"
  shows "\<exists>entryXmls.
     mapM_err (ledgerEntryXml eng) (elements (field v ''ledgerEntries'')) = Inr entryXmls
     \<and> buildVoucherXml eng v =
         Inr (voucherTemplate
                (toStringJS (numToString eng) (escapeXml (field v ''voucherType'')))
                (formatDate eng (field v ''date''))
                (toStringJS (numToString eng)
                   (escapeXml (js_or (field v ''voucherNumber'') (JStr []))))
                (toStringJS (numToString eng)
                   (escapeXml (js_or (field v ''narration'') (JStr []))))
                (concat entryXmls))"
proof -
  from arr have arr': "field v ''ledgerEntries'' = JArr (elements (field v ''ledgerEntries''))"
    by (rule isArray_elements)
  from es have "\<And>e. e \<in> set (elements (field v ''ledgerEntries''))
      \<Longrightarrow> \<exists>x. ledgerEntryXml eng e = Inr x"
    using ledgerEntryXml_ok by blast
  then obtain xs where
    xs: "mapM_err (ledgerEntryXml eng) (elements (field v ''ledgerEntries'')) = Inr xs"
    using mapM_err_ok by blast
  have "array_map ''ledgerEntries'' (ledgerEntryXml eng) (field v ''ledgerEntries'') = Inr xs"
    by (subst arr') (simp add: array_map_def xs)
  with t xs show ?thesis
    by (simp add: buildVoucherXml_def Let_def field_get [OF t])
qed

lemma buildVoucherXml_ok:
  assumes "\<not> rejected_voucher v"
  shows "\<exists>entryXmls.
     mapM_err (ledgerEntryXml eng) (elements (field v ''ledgerEntries'')) = Inr entryXmls
     \<and> buildVoucherXml eng v =
         Inr (voucherTemplate
                (toStringJS (numToString eng) (escapeXml (field v ''voucherType'')))
                (formatDate eng (field v ''date''))
                (toStringJS (numToString eng)
                   (escapeXml (js_or (field v ''voucherNumber'') (JStr []))))
                (toStringJS (numToString eng)
                   (escapeXml (js_or (field v ''narration'') (JStr []))))
                (concat entryXmls))"
proof (rule buildVoucherXml_readable)
  from assms obtain t where "get v ''voucherType'' = Inr t"
    by (cases "get v ''voucherType''") (auto simp: rejected_voucher_def missing_def)
  then show "get v ''voucherType'' = Inr (field v ''voucherType'')"
    by (simp add: field_get)
  from assms show "isArray (field v ''ledgerEntries'')"
    by (simp add: rejected_voucher_def)
  from assms show "\<forall>e \<in> set (elements (field v ''ledgerEntries'')).
      \<exists>n. get e ''ledgerName'' = Inr n"
    using valid_entry_readable by (auto simp: rejected_voucher_def)
qed

lemma createVoucher_sent:
  assumes "validateVoucherData v = Inr ()" and "buildVoucherXml rt v = Inr xml"
    and "sendRequest rt (buildImportRequest xml) = Inr response"
  shows "createVoucher rt v =
     Inr (JObj [(''success'', JBool True),
                (''message'', JStr ''Voucher created successfully''),
                (''data'', field response ''data''),
                (''voucherNumber'', field v ''voucherNumber''),
                (''voucherType'', field v ''voucherType'')])"
  using assms by (simp add: createVoucher_def rethrow_def Let_def)

text \<open>The sample vouchers.\<close>

lemma rne_whole [simp]: "rne (numeral k) = numeral k"
  using rne_of_int [of "numeral k"] by simp

lemma fl_samples:
  "fl 10000000000000000 = Fin 10000000000000000"
  "fl 10000000000000001 = Fin 10000000000000000"
  "fl 9007199254740994 = Fin 9007199254740994"
  "fl 9007199254740995 = Fin 9007199254740996"
  using fl_scaled [of 1 10000000000000000] fl_scaled [of 1 10000000000000001]
    fl_scaled [of 1 9007199254740994] fl_scaled [of 1 9007199254740995]
  by (simp_all add: rne_numeral overflow_small)

lemma balanced_voucher_accepted: "\<not> rejected_voucher balanced_voucher"
  by (simp add: rejected_voucher_def balanced_voucher_def sample_entry_def missing_def
      field_def elements_def invalid_entry_def decimal_amount_def amounts_def double_sum_def
      fl_numeral tolerance_value)

lemma unbalanced_voucher_rejected:
  "validateVoucherData unbalanced_voucher =
     Inl (Error ''Voucher debits and credits must balance'')"
  by (simp add: validateVoucherData_def unbalanced_voucher_def sample_entry_def field_def
      elements_def totalAmount_def number_value_def fl_numeral tolerance_value)

text \<open>
  C1, for amounts that are finite. \<open>_validateVoucherData\<close> throws exactly when a required
  field (voucher type, date, entry list) is missing, there are fewer than two entries, an
  entry lacks a ledger name or has an amount that is zero or not a number, or the sum of
  the amounts, taken in doubles from \<open>0\<close> in the order of the entries, exceeds the double
  \<open>0.01\<close> in absolute value. When the amounts are whole numbers whose absolute values sum
  to \<open>2 ^ 53\<close> at most, that sum is the exact one and the rule is the specification's.
  \<open>createVoucher\<close> throws the validation error as it is, whatever the transport would
  answer: it is raised before any XML is built. For every other voucher
  \<open>buildVoucherXml\<close> returns the voucher XML: the template filled with the escaped voucher
  type, the formatted date, the voucher number, the narration and the elements of the
  entries. It starts with the \<open>VOUCHER\<close> start tag up to \<open>ACTION="Create"\<close> and
  contains, for each entry, the \<open>LEDGERENTRIES.LIST\<close> element built from it. The import
  request built from it is what is sent, and a successful answer makes \<open>createVoucher\<close>
  return its success object.
\<close>

theorem createVoucher_validation:
  "finite_amounts v \<Longrightarrow>
   (isl (validateVoucherData v) \<longleftrightarrow> rejected_voucher v)
   \<and> (whole_amounts v \<longrightarrow> (rejected_voucher v \<longleftrightarrow> invalid_voucher v))
   \<and> (\<forall>e. validateVoucherData v = Inl e \<longrightarrow> createVoucher rt v = Inl e)
   \<and> (\<not> rejected_voucher v \<longrightarrow>
        (\<exists>entryXmls voucherXml.
           mapM_err (ledgerEntryXml rt) (elements (field v ''ledgerEntries'')) = Inr entryXmls
           \<and> voucherXml =
               voucherTemplate
                 (toStringJS (numToString rt) (escapeXml (field v ''voucherType'')))
                 (formatDate rt (field v ''date''))
                 (toStringJS (numToString rt)
                    (escapeXml (js_or (field v ''voucherNumber'') (JStr []))))
                 (toStringJS (numToString rt)
                    (escapeXml (js_or (field v ''narration'') (JStr []))))
                 (concat entryXmls)
           \<and> buildVoucherXml rt v = Inr voucherXml
           \<and> prefix (voucherHead
                      @ toStringJS (numToString rt) (escapeXml (field v ''voucherType''))
                      @ CHR 0x22 # CHR '' '' # actionCreate) voucherXml
           \<and> (\<forall>entry \<in> set (elements (field v ''ledgerEntries'')).
                \<exists>entryXml. ledgerEntryXml rt entry = Inr entryXml
                  \<and> prefix (''\<newline>'' @ ''            <LEDGERENTRIES.LIST>\<newline>'') entryXml
                  \<and> sublist entryXml voucherXml)
           \<and> (\<forall>response. sendRequest rt (buildImportRequest voucherXml) = Inr response \<longrightarrow>
                createVoucher rt v =
                  Inr (JObj [(''success'', JBool True),
                             (''message'', JStr ''Voucher created successfully''),
                             (''data'', field response ''data''),
                             (''voucherNumber'', field v ''voucherNumber''),
                             (''voucherType'', field v ''voucherType'')]))))"
proof (intro conjI allI impI)
  assume f: "finite_amounts v"
  show "isl (validateVoucherData v) \<longleftrightarrow> rejected_voucher v"
    using f by (rule validateVoucherData_isl)
  show "rejected_voucher v \<longleftrightarrow> invalid_voucher v" if "whole_amounts v"
    using that by (rule whole_rejected_iff)
  show "createVoucher rt v = Inl e" if "validateVoucherData v = Inl e" for e
    using that by (simp add: createVoucher_def)
  assume ok: "\<not> rejected_voucher v"
  let ?es = "elements (field v ''ledgerEntries'')"
  let ?t = "toStringJS (numToString rt) (escapeXml (field v ''voucherType''))"
  obtain xs where xs: "mapM_err (ledgerEntryXml rt) ?es = Inr xs"
    and b: "buildVoucherXml rt v =
         Inr (voucherTemplate ?t
                (formatDate rt (field v ''date''))
                (toStringJS (numToString rt)
                   (escapeXml (js_or (field v ''voucherNumber'') (JStr []))))
                (toStringJS (numToString rt)
                   (escapeXml (js_or (field v ''narration'') (JStr []))))
                (concat xs))"
    using buildVoucherXml_ok [OF ok] by blast
  let ?xml = "voucherTemplate ?t
                (formatDate rt (field v ''date''))
                (toStringJS (numToString rt)
                   (escapeXml (js_or (field v ''voucherNumber'') (JStr []))))
                (toStringJS (numToString rt)
                   (escapeXml (js_or (field v ''narration'') (JStr []))))
                (concat xs)"
  from ok f have "\<not> isl (validateVoucherData v)" by (simp add: validateVoucherData_isl)
  then have val: "validateVoucherData v = Inr ()" by (cases "validateVoucherData v") auto
  have entries: "\<exists>entryXml. ledgerEntryXml rt entry = Inr entryXml
        \<and> prefix (''\<newline>'' @ ''            <LEDGERENTRIES.LIST>\<newline>'') entryXml
        \<and> sublist entryXml ?xml" if "entry \<in> set ?es" for entry
  proof -
    from mapM_err_set [OF xs that] obtain y where y: "y \<in> set xs" "ledgerEntryXml rt entry = Inr y"
      by blast
    have "sublist y (concat xs)" using y(1) by (rule sublist_concat)
    then have "sublist y ?xml"
      using voucherTemplate_entries sublist_order.order_trans by blast
    with y(2) ledgerEntryXml_opens [OF y(2)] show ?thesis by blast
  qed
  have sent: "createVoucher rt v =
        Inr (JObj [(''success'', JBool True),
                   (''message'', JStr ''Voucher created successfully''),
                   (''data'', field response ''data''),
                   (''voucherNumber'', field v ''voucherNumber''),
                   (''voucherType'', field v ''voucherType'')])"
    if "sendRequest rt (buildImportRequest ?xml) = Inr response" for response
    using val b that by (rule createVoucher_sent)
  show "\<exists>entryXmls voucherXml.
           mapM_err (ledgerEntryXml rt) (elements (field v ''ledgerEntries'')) = Inr entryXmls
           \<and> voucherXml =
               voucherTemplate
                 (toStringJS (numToString rt) (escapeXml (field v ''voucherType'')))
                 (formatDate rt (field v ''date''))
                 (toStringJS (numToString rt)
                    (escapeXml (js_or (field v ''voucherNumber'') (JStr []))))
                 (toStringJS (numToString rt)
                    (escapeXml (js_or (field v ''narration'') (JStr []))))
                 (concat entryXmls)
           \<and> buildVoucherXml rt v = Inr voucherXml
           \<and> prefix (voucherHead
                      @ toStringJS (numToString rt) (escapeXml (field v ''voucherType''))
                      @ CHR 0x22 # CHR '' '' # actionCreate) voucherXml
           \<and> (\<forall>entry \<in> set (elements (field v ''ledgerEntries'')).
                \<exists>entryXml. ledgerEntryXml rt entry = Inr entryXml
                  \<and> prefix (''\<newline>'' @ ''            <LEDGERENTRIES.LIST>\<newline>'') entryXml
                  \<and> sublist entryXml voucherXml)
           \<and> (\<forall>response. sendRequest rt (buildImportRequest voucherXml) = Inr response \<longrightarrow>
                createVoucher rt v =
                  Inr (JObj [(''success'', JBool True),
                             (''message'', JStr ''Voucher created successfully''),
                             (''data'', field response ''data''),
                             (''voucherNumber'', field v ''voucherNumber''),
                             (''voucherType'', field v ''voucherType'')]))"
  proof (rule exI [of _ xs], rule exI [of _ ?xml], intro conjI)
    show "mapM_err (ledgerEntryXml rt) (elements (field v ''ledgerEntries'')) = Inr xs"
      by (rule xs)
    show "?xml = ?xml" ..
    show "buildVoucherXml rt v = Inr ?xml" by (rule b)
    show "prefix (voucherHead
                      @ toStringJS (numToString rt) (escapeXml (field v ''voucherType''))
                      @ CHR 0x22 # CHR '' '' # actionCreate) ?xml"
      by (rule voucherTemplate_opens)
    show "\<forall>entry \<in> set (elements (field v ''ledgerEntries'')).
                \<exists>entryXml. ledgerEntryXml rt entry = Inr entryXml
                  \<and> prefix (''\<newline>'' @ ''            <LEDGERENTRIES.LIST>\<newline>'') entryXml
                  \<and> sublist entryXml ?xml"
      using entries by blast
    show "\<forall>response. sendRequest rt (buildImportRequest ?xml) = Inr response \<longrightarrow>
                createVoucher rt v =
                  Inr (JObj [(''success'', JBool True),
                             (''message'', JStr ''Voucher created successfully''),
                             (''data'', field response ''data''),
                             (''voucherNumber'', field v ''voucherNumber''),
                             (''voucherType'', field v ''voucherType'')])"
      using sent by blast
  qed
qed

text \<open>The specification's scenario: the balanced voucher is created, the one whose last
  entry is \<open>-901\<close> is rejected before anything is sent.\<close>

theorem createVoucher_validation_witness:
  "createVoucher (answering JUndefined ok_response) balanced_voucher =
     Inr (JObj [(''success'', JBool True),
                (''message'', JStr ''Voucher created successfully''),
                (''data'', ok_response),
                (''voucherNumber'', JUndefined),
                (''voucherType'', JStr ''Sales'')])
   \<and> createVoucher (answering JUndefined ok_response) unbalanced_voucher =
       Inl (Error ''Voucher debits and credits must balance'')"
proof
  have f: "finite_amounts balanced_voucher"
    by (simp add: finite_amounts_def balanced_voucher_def sample_entry_def field_def
        elements_def)
  obtain xml where
    "\<forall>response. sendRequest (answering JUndefined ok_response) (buildImportRequest xml)
         = Inr response \<longrightarrow>
       createVoucher (answering JUndefined ok_response) balanced_voucher =
         Inr (JObj [(''success'', JBool True),
                    (''message'', JStr ''Voucher created successfully''),
                    (''data'', field response ''data''),
                    (''voucherNumber'', field balanced_voucher ''voucherNumber''),
                    (''voucherType'', field balanced_voucher ''voucherType'')])"
    using createVoucher_validation [OF f, of "answering JUndefined ok_response"]
      balanced_voucher_accepted by blast
  then show "createVoucher (answering JUndefined ok_response) balanced_voucher =
     Inr (JObj [(''success'', JBool True),
                (''message'', JStr ''Voucher created successfully''),
                (''data'', ok_response),
                (''voucherNumber'', JUndefined),
                (''voucherType'', JStr ''Sales'')])"
    by (simp add: sendRequest_answering field_def balanced_voucher_def)
next
  have f: "finite_amounts unbalanced_voucher"
    by (simp add: finite_amounts_def unbalanced_voucher_def sample_entry_def field_def
        elements_def)
  show "createVoucher (answering JUndefined ok_response) unbalanced_voucher =
       Inl (Error ''Voucher debits and credits must balance'')"
    using createVoucher_validation [OF f, of "answering JUndefined ok_response"]
      unbalanced_voucher_rejected by simp
qed

text \<open>
  The rule of the specification, with the exact sum, is not the code's. The voucher with
  the amounts \<open>1e16\<close>, \<open>1\<close>, \<open>-1e16\<close> sums to \<open>1\<close> and passes; the one with
  \<open>2 ^ 53 + 2\<close>, \<open>1\<close>, \<open>-(2 ^ 53 + 2)\<close>, \<open>-1\<close> sums to \<open>0\<close> and is rejected; the one
  whose amounts are NaN passes.
\<close>

theorem rounded_sum_counterexample:
  "validateVoucherData absorbed_voucher = Inr () \<and> invalid_voucher absorbed_voucher
   \<and> validateVoucherData carried_voucher =
       Inl (Error ''Voucher debits and credits must balance'')
   \<and> \<not> invalid_voucher carried_voucher
   \<and> validateVoucherData nan_voucher = Inr () \<and> invalid_voucher nan_voucher"
proof (intro conjI)
  show "validateVoucherData absorbed_voucher = Inr ()"
    by (simp add: validateVoucherData_def absorbed_voucher_def sample_entry_def field_def
        elements_def totalAmount_def number_value_def fl_samples fl_numeral tolerance_value)
  show "invalid_voucher absorbed_voucher"
    by (simp add: invalid_voucher_def absorbed_voucher_def sample_entry_def field_def
        elements_def amounts_def decimal_amount_def)
  show "validateVoucherData carried_voucher =
       Inl (Error ''Voucher debits and credits must balance'')"
    by (simp add: validateVoucherData_def carried_voucher_def sample_entry_def field_def
        elements_def totalAmount_def number_value_def fl_samples fl_numeral tolerance_value)
  show "\<not> invalid_voucher carried_voucher"
    by (simp add: invalid_voucher_def carried_voucher_def sample_entry_def field_def
        elements_def amounts_def decimal_amount_def invalid_entry_def missing_def)
  show "validateVoucherData nan_voucher = Inr ()"
    by (simp add: validateVoucherData_def nan_voucher_def field_def elements_def
        totalAmount_def number_value_def)
  show "invalid_voucher nan_voucher"
    by (simp add: invalid_voucher_def nan_voucher_def field_def elements_def
        invalid_entry_def decimal_amount_def)
qed

section \<open>escapeXml\<close>

lemma replaceAllChar_Nil: "replaceAllChar c r [] = []"
  by (simp add: replaceAllChar_def)

lemma replaceAllChar_Cons:
  "replaceAllChar c r (x # xs) = (if x = c then r else [x]) @ replaceAllChar c r xs"
  by (simp add: replaceAllChar_def)

lemma replaceAllChar_append:
  "replaceAllChar c r (xs @ ys) = replaceAllChar c r xs @ replaceAllChar c r ys"
  by (simp add: replaceAllChar_def)

text \<open>The five passes, ampersand first, amount to one pass that escapes each character of
  the input once.\<close>

lemma escape_single_pass:
  \<open>replaceAllChar (CHR 0x27) ''&apos;''
          (replaceAllChar (CHR 0x22) ''&quot;''
          (replaceAllChar (CHR ''>'') ''&gt;''
          (replaceAllChar (CHR ''<'') ''&lt;''
          (replaceAllChar (CHR ''&'') ''&amp;'' s)))) = concat (map escape_char s)\<close>
proof (induction s)
  case Nil
  show ?case by (simp add: replaceAllChar_Nil)
next
  case (Cons c s)
  show ?case
    using Cons.IH
    by (simp add: replaceAllChar_Cons replaceAllChar_append replaceAllChar_Nil escape_char_def)
qed

lemma unescape_escape_char:
  "unescapeXml (escape_char c @ rest) = c # unescapeXml rest"
  by (simp add: escape_char_def)

lemma unescape_escaped: "unescapeXml (concat (map escape_char s)) = s"
  by (induction s) (simp_all add: unescape_escape_char)

text \<open>
  C5. On a string, \<open>escapeXml\<close> replaces each of the five reserved characters by its
  entity and leaves every other character alone; since the ampersand pass runs first, no
  ampersand of an entity is escaped again. Unescaping the result gives the string back.
  A value that is not a string is returned unchanged.
\<close>

theorem escapeXml_roundtrip:
  "escapeXml (JStr s) = JStr (concat (map escape_char s))
   \<and> unescapeXml (concat (map escape_char s)) = s
   \<and> ((\<forall>t. v \<noteq> JStr t) \<longrightarrow> escapeXml v = v)"
proof (intro conjI impI)
  show "escapeXml (JStr s) = JStr (concat (map escape_char s))"
    by (simp add: escape_single_pass)
  show "unescapeXml (concat (map escape_char s)) = s"
    by (rule unescape_escaped)
  assume "\<forall>t. v \<noteq> JStr t"
  then show "escapeXml v = v" by (cases v) simp_all
qed

theorem escapeXml_roundtrip_witness:
  \<open>escapeXml (JStr ''A&B <"x">'') = JStr ''A&amp;B &lt;&quot;x&quot;&gt;''
   \<and> unescapeXml ''A&amp;B &lt;&quot;x&quot;&gt;'' = ''A&B <"x">''
   \<and> escapeXml (JNum (Fin 15000)) = JNum (Fin 15000)\<close>
  using escapeXml_roundtrip [of \<open>''A&B <"x">''\<close> "JNum (Fin 15000)"]
  by (simp add: escape_char_def)

section \<open>formatDate\<close>

lemma showNat_lt10: "n < 10 \<Longrightarrow> showNat n = [digit_char n]"
  by (simp add: showNat.simps)

lemma showNat_lt100:
  "10 \<le> n \<Longrightarrow> n < 100 \<Longrightarrow> showNat n = [digit_char (n div 10), digit_char (n mod 10)]"
  by (subst showNat.simps) (simp add: showNat_lt10)

lemma digit_char_0: "digit_char 0 = CHR ''0''"
  by code_simp

lemma digit_char_values:
  "digit_char 0 = CHR ''0''" "digit_char 1 = CHR ''1''" "digit_char (Suc 0) = CHR ''1''"
  "digit_char 2 = CHR ''2''" "digit_char 3 = CHR ''3''" "digit_char 4 = CHR ''4''"
  "digit_char 5 = CHR ''5''" "digit_char 6 = CHR ''6''" "digit_char 7 = CHR ''7''"
  "digit_char 8 = CHR ''8''" "digit_char 9 = CHR ''9''"
  by code_simp+

lemma pad2_day:
  "d < 100 \<Longrightarrow> padStart 2 (CHR ''0'') (showNat d) = [digit_char (d div 10), digit_char (d mod 10)]"
proof (cases "d < 10")
  case True
  then show ?thesis by (simp add: padStart_def showNat_lt10 digit_char_0)
next
  case False
  assume "d < 100"
  with False show ?thesis by (simp add: padStart_def showNat_lt100)
qed

lemma digit_char_inj: "a < 10 \<Longrightarrow> b < 10 \<Longrightarrow> digit_char a = digit_char b \<Longrightarrow> a = b"
  by (simp add: digit_char_def char_of_eq_iff take_bit_eq_mod)

lemma months_length: "length months = 12"
  by (simp add: months_def)

lemma months_distinct: "distinct months"
  by (simp add: months_def)

lemma months_len3: "m < 12 \<Longrightarrow> length (months ! m) = 3"
proof -
  have "\<forall>x \<in> set months. length x = 3" by (simp add: months_def)
  moreover assume "m < 12"
  ultimately show ?thesis by (simp add: months_length)
qed

lemma days_le_31: "days_in_month y m \<le> 31"
  by (simp add: days_in_month_def)

lemma formatDateObj_valid:
  assumes "valid_date y m d"
  shows "formatDateObj (LocalDate y m d) =
    [digit_char (d div 10), digit_char (d mod 10)] @ ''-'' @ months ! m @ ''-'' @ showInt y"
proof -
  from assms have "m < 12" and "d \<le> 31"
    using days_le_31 [of y m] by (auto simp: valid_date_def)
  then show ?thesis by (simp add: pad2_day months_length)
qed

lemma formatDateObj_inj:
  assumes v1: "valid_date y m d" and v2: "valid_date y m' d'"
    and eq: "formatDateObj (LocalDate y m d) = formatDateObj (LocalDate y m' d')"
  shows "m = m' \<and> d = d'"
proof -
  from v1 v2 have m: "m < 12" "m' < 12" and d: "d \<le> 31" "d' \<le> 31"
    using days_le_31 [of y m] days_le_31 [of y m'] by (auto simp: valid_date_def)
  from eq have
    "[digit_char (d div 10), digit_char (d mod 10)] @ ''-'' @ months ! m @ ''-'' @ showInt y
      = [digit_char (d' div 10), digit_char (d' mod 10)] @ ''-'' @ months ! m' @ ''-'' @ showInt y"
    by (simp only: formatDateObj_valid [OF v1] formatDateObj_valid [OF v2])
  then have "digit_char (d div 10) = digit_char (d' div 10)"
    and "digit_char (d mod 10) = digit_char (d' mod 10)"
    and mm: "months ! m @ ''-'' @ showInt y = months ! m' @ ''-'' @ showInt y"
    by simp_all
  with d have "d div 10 = d' div 10" "d mod 10 = d' mod 10"
    by (auto dest!: digit_char_inj [rotated 2])
  then have dd: "d = d'" by (metis div_mult_mod_eq)
  from mm have "months ! m = months ! m'" by simp
  with m have "m = m'"
    using months_distinct by (simp add: nth_eq_iff_index_eq months_length)
  with dd show ?thesis by simp
qed

lemma showNat_4: "1000 \<le> n \<Longrightarrow> n < 10000 \<Longrightarrow> length (showNat n) = 4"
proof -
  assume a: "1000 \<le> n" "n < 10000"
  then have b: "10 \<le> n div 100" "n div 100 < 100" by auto
  have "showNat n = showNat (n div 10) @ [digit_char (n mod 10)]"
    using a by (subst showNat.simps) simp
  also have "showNat (n div 10) = showNat (n div 100) @ [digit_char (n div 10 mod 10)]"
    using a by (subst showNat.simps) (simp add: div_mult2_eq [symmetric])
  finally show ?thesis using showNat_lt100 [OF b] by simp
qed

lemma showInt_4: "1000 \<le> y \<Longrightarrow> y \<le> 9999 \<Longrightarrow> length (showInt y) = 4"
  using showNat_4 [of "nat y"] by (simp add: showInt_def)

text \<open>
  For a \<open>Date\<close> holding a valid calendar date, \<open>formatDate\<close> returns the day as two
  digits (zero-padded), a hyphen, the three-letter month abbreviation, a hyphen and the
  year in decimal, which has four digits when the year lies between 1000 and 9999; and
  two valid dates of the same year with the same output are the same day of the same
  month.
\<close>

lemma formatDate_valid_dates:
  "newDate eng date = LocalDate y m d \<and> valid_date y m d \<longrightarrow>
     formatDate eng date =
       [digit_char (d div 10), digit_char (d mod 10)] @ ''-'' @ months ! m @ ''-'' @ showInt y
     \<and> length (months ! m) = 3
     \<and> (1000 \<le> y \<and> y \<le> 9999 \<longrightarrow> length (showInt y) = 4)
     \<and> (\<forall>date' m' d'. newDate eng date' = LocalDate y m' d' \<and> valid_date y m' d'
            \<and> formatDate eng date' = formatDate eng date \<longrightarrow> m' = m \<and> d' = d)"
proof (intro impI conjI allI; (elim conjE)?)
  assume nd: "newDate eng date = LocalDate y m d" and v: "valid_date y m d"
  show "formatDate eng date =
       [digit_char (d div 10), digit_char (d mod 10)] @ ''-'' @ months ! m @ ''-'' @ showInt y"
    using formatDateObj_valid [OF v] nd by (simp add: formatDate_def)
  show "length (months ! m) = 3"
    using v by (simp add: valid_date_def months_len3)
  show "length (showInt y) = 4" if "1000 \<le> y" "y \<le> 9999"
    using that by (rule showInt_4)
  show "m' = m" and "d' = d"
    if "newDate eng date' = LocalDate y m' d'" "valid_date y m' d'"
      "formatDate eng date' = formatDate eng date" for date' m' d'
    using formatDateObj_inj [OF that(2) v] that(1,3) nd by (simp_all add: formatDate_def)
qed

lemma formatDate_sample:
  "formatDate sample_engine (JStr ''05-Sep-2023'') = ''05-Sep-2023''"
  by (simp add: formatDate_def sample_engine_def sample_newDate_def months_def padStart_def
      digit_char_values showInt_def showNat.simps)

text \<open>
  C6 at \<open>formatDate(new Date('0999-01-05T00:00:00'))\<close>, the fifth of January of the
  year 999, a valid calendar date. The day is padded to two digits; the year is
  interpolated as \<open>getFullYear()\<close> prints it, without padding, and has three digits. The
  four-digit form of the claim, and of the \<open>DD-MMM-YYYY\<close> in the comment above
  \<open>formatDate\<close>, is \<open>05-Jan-0999\<close>.
\<close>

theorem formatDate_year_not_padded:
  "valid_date 999 0 5
   \<and> formatDate sample_engine (JStr ''0999-01-05T00:00:00'') = ''05-Jan-999''
   \<and> formatDate sample_engine (JStr ''0999-01-05T00:00:00'') \<noteq> ''05-Jan-0999''"
  by (simp add: formatDate_def sample_engine_def sample_newDate_def valid_date_def
      days_in_month_def months_def padStart_def digit_char_values showInt_def showNat.simps)

section \<open>The signed amount of a ledger entry\<close>

lemma text_after_skip:
  "p \<notin> set a \<Longrightarrow> text_after (p # ps) (a @ rest) = text_after (p # ps) rest"
  by (induction a) auto

lemma text_until_markup:
  "CHR ''<'' \<notin> set t \<Longrightarrow> takeWhile (\<lambda>c. c \<noteq> CHR ''<'') (t @ CHR ''<'' # rest) = t"
  by (induction t) auto

lemma escape_char_no_lt: "CHR ''<'' \<notin> set (escape_char c)"
  by (simp add: escape_char_def)

lemma escaped_no_lt: "CHR ''<'' \<notin> set (concat (map escape_char s))"
  by (induction s) (simp_all add: escape_char_no_lt)

lemma yesNo_no_lt: "CHR ''<'' \<notin> set (yesNo b)"
  by (simp add: yesNo_def)

lemma ledgerEntryTemplate_elements:
  assumes "CHR ''<'' \<notin> set n" "CHR ''<'' \<notin> set f" "CHR ''<'' \<notin> set amt"
  shows "elementText ''LEDGERNAME'' (ledgerEntryTemplate n f amt bn bt) = Some n"
    and "elementText ''ISDEEMEDPOSITIVE'' (ledgerEntryTemplate n f amt bn bt) = Some f"
    and "elementText ''AMOUNT'' (ledgerEntryTemplate n f amt bn bt) = Some amt"
  using assms
  by (simp_all add: elementText_def ledgerEntryTemplate_def text_after_skip text_until_markup)

lemma parseLedgerEntry_amount:
  assumes "get node ''LEDGERNAME'' = Inr tag"
  shows "\<exists>parsed. parseLedgerEntry node = Inr parsed
     \<and> field parsed ''amount'' =
         js_or (JNum (js_times_sign (parseFloat (field node ''AMOUNT''))
                        (eq_str (field node ''ISDEEMEDPOSITIVE'') ''No'')))
               (JNum (Fin 0))"
  using assms by (simp add: parseLedgerEntry_def Let_def field_def)

lemma sample_shows_10000: "numToString sample_engine (Fin 10000) = ''10000''"
  by (simp add: sample_engine_def showRat_def showNat.simps digit_char_values)

lemma parseFloat_10000: "parseFloat_str ''10000'' = Fin 10000"
  by (simp add: parseFloat_str_def parse_unsigned_def is_space_def is_digit_def
      digits_value_def fl_numeral)

text \<open>
  C2. For an entry with a ledger name and an amount \<open>a \<noteq> 0\<close>, the element the builder
  emits holds \<open>Yes\<close> as the text of \<open>ISDEEMEDPOSITIVE\<close> exactly when \<open>a > 0\<close> (otherwise
  \<open>No\<close>) and the text of \<open>|a|\<close> as the text of \<open>AMOUNT\<close>; within a voucher it is part of
  the voucher XML. The entry parser applied to a node that holds these two texts recovers
  \<open>a\<close>. This is for an engine whose text of \<open>|a|\<close> has no markup and reads back as \<open>|a|\<close>,
  as the text of a JavaScript number does. In general the parser negates the parsed
  amount only when the flag is exactly \<open>No\<close>: with any other flag the amount is
  \<open>parseFloat(AMOUNT) || 0\<close>.
\<close>

theorem entry_amount_roundtrip:
  "(get entry ''ledgerName'' = Inr (JStr ledgerName)
      \<and> field entry ''amount'' = JNum (Fin a) \<and> a \<noteq> 0
      \<and> CHR ''<'' \<notin> set (numToString eng (Fin \<bar>a\<bar>))
      \<and> parseFloat (JStr (numToString eng (Fin \<bar>a\<bar>))) = Fin \<bar>a\<bar> \<longrightarrow>
    (\<exists>entryXml. ledgerEntryXml eng entry = Inr entryXml
       \<and> elementText ''ISDEEMEDPOSITIVE'' entryXml = Some (if a > 0 then ''Yes'' else ''No'')
       \<and> elementText ''AMOUNT'' entryXml = Some (numToString eng (Fin \<bar>a\<bar>))
       \<and> (\<forall>voucher voucherXml.
             entry \<in> set (elements (field voucher ''ledgerEntries''))
             \<and> buildVoucherXml eng voucher = Inr voucherXml \<longrightarrow> sublist entryXml voucherXml)
       \<and> (\<forall>node. node \<noteq> JUndefined \<and> node \<noteq> JNull
             \<and> holds_text node entryXml [''ISDEEMEDPOSITIVE'', ''AMOUNT''] \<longrightarrow>
            (\<exists>parsed. parseLedgerEntry node = Inr parsed
               \<and> field parsed ''amount'' = JNum (Fin a)))))
   \<and> (\<forall>node tag. get node ''LEDGERNAME'' = Inr tag
         \<and> field node ''ISDEEMEDPOSITIVE'' \<noteq> JStr ''No'' \<longrightarrow>
        (\<exists>parsed. parseLedgerEntry node = Inr parsed
           \<and> field parsed ''amount'' = parseFloat_or_0 (field node ''AMOUNT'')))"
proof (intro conjI impI allI; (elim conjE)?)
  assume e: "get entry ''ledgerName'' = Inr (JStr ledgerName)"
    "field entry ''amount'' = JNum (Fin a)"
    and a0: "a \<noteq> 0"
    and lt: "CHR ''<'' \<notin> set (numToString eng (Fin \<bar>a\<bar>))"
    and rb: "parseFloat (JStr (numToString eng (Fin \<bar>a\<bar>))) = Fin \<bar>a\<bar>"
  let ?flag = "if a > 0 then ''Yes'' else ''No''"
  let ?xml = "ledgerEntryTemplate
             (concat (map escape_char ledgerName))
             ?flag
             (numToString eng (Fin \<bar>a\<bar>))
             (toStringJS (numToString eng) (escapeXml (js_or (field entry ''billName'') (JStr []))))
             (toStringJS (numToString eng) (js_or (field entry ''billType'') (JStr ''New Ref'')))"
  have x: "ledgerEntryXml eng entry = Inr ?xml"
    using e by (simp add: ledgerEntryXml_def Let_def toNumber_def yesNo_def escape_single_pass)
  have f: "CHR ''<'' \<notin> set ?flag" by simp
  have t1: "elementText ''ISDEEMEDPOSITIVE'' ?xml = Some ?flag"
    using escaped_no_lt f lt by (rule ledgerEntryTemplate_elements)
  have t2: "elementText ''AMOUNT'' ?xml = Some (numToString eng (Fin \<bar>a\<bar>))"
    using escaped_no_lt f lt by (rule ledgerEntryTemplate_elements)
  have v: "sublist ?xml voucherXml"
    if "entry \<in> set (elements (field voucher ''ledgerEntries''))"
      and b: "buildVoucherXml eng voucher = Inr voucherXml" for voucher voucherXml
  proof -
    from b obtain t where t: "get voucher ''voucherType'' = Inr t"
      by (cases "get voucher ''voucherType''") (simp_all add: buildVoucherXml_def)
    from b t obtain xs where
      m: "array_map ''ledgerEntries'' (ledgerEntryXml eng) (field voucher ''ledgerEntries'') = Inr xs"
      by (cases "array_map ''ledgerEntries'' (ledgerEntryXml eng) (field voucher ''ledgerEntries'')")
         (simp_all add: buildVoucherXml_def Let_def)
    then obtain es where es: "field voucher ''ledgerEntries'' = JArr es"
      by (cases "field voucher ''ledgerEntries''") (simp_all add: array_map_def)
    with m have "mapM_err (ledgerEntryXml eng) (elements (field voucher ''ledgerEntries'')) = Inr xs"
      by (simp add: array_map_def elements_def)
    from mapM_err_set [OF this that(1)] x have "?xml \<in> set xs" by auto
    then have "sublist ?xml (concat xs)" by (rule sublist_concat)
    moreover have "\<exists>a' b' c' d'. voucherXml = voucherTemplate a' b' c' d' (concat xs)"
      using b t m by (simp add: buildVoucherXml_def Let_def) blast
    ultimately show ?thesis
      using voucherTemplate_entries sublist_order.order_trans by blast
  qed
  have p: "\<exists>parsed. parseLedgerEntry node = Inr parsed \<and> field parsed ''amount'' = JNum (Fin a)"
    if n: "node \<noteq> JUndefined" "node \<noteq> JNull"
      and h: "holds_text node ?xml [''ISDEEMEDPOSITIVE'', ''AMOUNT'']" for node
  proof -
    from h t1 t2 have fs: "field node ''ISDEEMEDPOSITIVE'' = JStr ?flag"
      "field node ''AMOUNT'' = JStr (numToString eng (Fin \<bar>a\<bar>))"
      by (auto simp: holds_text_def)
    have g: "get node ''LEDGERNAME'' = Inr (field node ''LEDGERNAME'')"
      using n by (rule not_nullish_get)
    from parseLedgerEntry_amount [OF g] obtain parsed where
      p: "parseLedgerEntry node = Inr parsed"
        "field parsed ''amount'' =
           js_or (JNum (js_times_sign (parseFloat (field node ''AMOUNT''))
                          (eq_str (field node ''ISDEEMEDPOSITIVE'') ''No'')))
                 (JNum (Fin 0))"
      by blast
    have "field parsed ''amount'' = JNum (Fin a)"
      using a0 rb by (simp only: p(2) fs) (auto simp: js_times_sign_def eq_str_def js_or_def)
    with p(1) show ?thesis by blast
  qed
  show "\<exists>entryXml. ledgerEntryXml eng entry = Inr entryXml
       \<and> elementText ''ISDEEMEDPOSITIVE'' entryXml = Some (if a > 0 then ''Yes'' else ''No'')
       \<and> elementText ''AMOUNT'' entryXml = Some (numToString eng (Fin \<bar>a\<bar>))
       \<and> (\<forall>voucher voucherXml.
             entry \<in> set (elements (field voucher ''ledgerEntries''))
             \<and> buildVoucherXml eng voucher = Inr voucherXml \<longrightarrow> sublist entryXml voucherXml)
       \<and> (\<forall>node. node \<noteq> JUndefined \<and> node \<noteq> JNull
             \<and> holds_text node entryXml [''ISDEEMEDPOSITIVE'', ''AMOUNT''] \<longrightarrow>
            (\<exists>parsed. parseLedgerEntry node = Inr parsed
               \<and> field parsed ''amount'' = JNum (Fin a)))"
  proof (rule exI [of _ ?xml], intro conjI)
    show "ledgerEntryXml eng entry = Inr ?xml" by (rule x)
    show "elementText ''ISDEEMEDPOSITIVE'' ?xml = Some ?flag" by (rule t1)
    show "elementText ''AMOUNT'' ?xml = Some (numToString eng (Fin \<bar>a\<bar>))" by (rule t2)
    show "\<forall>voucher voucherXml.
             entry \<in> set (elements (field voucher ''ledgerEntries''))
             \<and> buildVoucherXml eng voucher = Inr voucherXml \<longrightarrow> sublist ?xml voucherXml"
      using v by blast
    show "\<forall>node. node \<noteq> JUndefined \<and> node \<noteq> JNull
             \<and> holds_text node ?xml [''ISDEEMEDPOSITIVE'', ''AMOUNT''] \<longrightarrow>
            (\<exists>parsed. parseLedgerEntry node = Inr parsed
               \<and> field parsed ''amount'' = JNum (Fin a))"
      using p by blast
  qed
next
  fix node tag
  assume n: "get node ''LEDGERNAME'' = Inr tag" "field node ''ISDEEMEDPOSITIVE'' \<noteq> JStr ''No''"
  from parseLedgerEntry_amount [OF n(1)] n(2)
  show "\<exists>parsed. parseLedgerEntry node = Inr parsed
           \<and> field parsed ''amount'' = parseFloat_or_0 (field node ''AMOUNT'')"
    by (simp add: js_times_sign_def eq_str_def parseFloat_or_0_def)
qed

text \<open>The credit entry \<open>{ ledgerName: 'Sales', amount: -10000 }\<close>: emitted with the texts
  \<open>No\<close> and \<open>10000\<close>, read back as \<open>-10000\<close> from the node the parser makes of the
  element.\<close>

theorem entry_amount_roundtrip_witness:
  "elementText ''ISDEEMEDPOSITIVE'' (ledgerEntryTemplate ''Sales'' ''No'' ''10000'' [] ''New Ref'')
     = Some ''No''
   \<and> elementText ''AMOUNT'' (ledgerEntryTemplate ''Sales'' ''No'' ''10000'' [] ''New Ref'')
     = Some ''10000''
   \<and> (\<exists>parsed. parseLedgerEntry sales_node = Inr parsed
        \<and> field parsed ''amount'' = JNum (Fin (- 10000)))"
proof -
  let ?xml = "ledgerEntryTemplate ''Sales'' ''No'' ''10000'' [] ''New Ref''"
  have h: "get (sample_entry ''Sales'' (- 10000)) ''ledgerName'' = Inr (JStr ''Sales'')
      \<and> field (sample_entry ''Sales'' (- 10000)) ''amount'' = JNum (Fin (- 10000))
      \<and> (- 10000 :: rat) \<noteq> 0
      \<and> CHR ''<'' \<notin> set (numToString sample_engine (Fin \<bar>- 10000\<bar>))
      \<and> parseFloat (JStr (numToString sample_engine (Fin \<bar>- 10000\<bar>))) = Fin \<bar>- 10000\<bar>"
    by (simp add: sample_entry_def field_def sample_shows_10000 parseFloat_10000)
  have x: "ledgerEntryXml sample_engine (sample_entry ''Sales'' (- 10000)) = Inr ?xml"
    by (simp add: ledgerEntryXml_def Let_def toNumber_def yesNo_def sample_entry_def field_def
        sample_shows_10000 js_or_def replaceAllChar_def)
  from entry_amount_roundtrip [of "sample_entry ''Sales'' (- 10000)" "''Sales''"
      "- 10000" sample_engine, THEN conjunct1, THEN mp, OF h] x
  have t: "elementText ''ISDEEMEDPOSITIVE'' ?xml = Some ''No''"
    "elementText ''AMOUNT'' ?xml = Some ''10000''"
    "\<forall>node. node \<noteq> JUndefined \<and> node \<noteq> JNull
        \<and> holds_text node ?xml [''ISDEEMEDPOSITIVE'', ''AMOUNT''] \<longrightarrow>
       (\<exists>parsed. parseLedgerEntry node = Inr parsed
          \<and> field parsed ''amount'' = JNum (Fin (- 10000)))"
    by (auto simp: sample_shows_10000)
  have "holds_text sales_node ?xml [''ISDEEMEDPOSITIVE'', ''AMOUNT'']"
    using t(1,2) by (simp add: holds_text_def sales_node_def field_def)
  moreover have "sales_node \<noteq> JUndefined \<and> sales_node \<noteq> JNull"
    by (simp add: sales_node_def)
  ultimately show ?thesis using t by blast
qed

section \<open>Error responses\<close>






section \<open>Defaults for missing tags\<close>






section \<open>Summaries\<close>

lemma stockSummaryOf_fields:
  "field (stockSummaryOf items) ''items'' = JArr items"
  "field (stockSummaryOf items) ''totalItems'' = js_count (length items)"
  "field (stockSummaryOf items) ''totalValue'' =
     JNum (foldl (\<lambda>sum item. js_add sum (number_value (field item ''closingValue'')))
             (Fin 0) items)"
  "field (field (stockSummaryOf items) ''summary'') ''positiveStock'' =
     js_count (length (filter (\<lambda>item. js_gt (closingQuantity item) (Fin 0)) items))"
  "field (field (stockSummaryOf items) ''summary'') ''negativeStock'' =
     js_count (length (filter (\<lambda>item. js_lt (closingQuantity item) (Fin 0)) items))"
  "field (field (stockSummaryOf items) ''summary'') ''zeroStock'' =
     js_count (length (filter (\<lambda>item. closingQuantity item = Fin 0) items))"
  by (simp_all add: stockSummaryOf_def field_def Let_def)

lemma stockSummaryOf_Nil:
  "stockSummaryOf [] =
     JObj [(''items'', JArr []), (''totalItems'', JNum (Fin 0)), (''totalValue'', JNum (Fin 0)),
           (''summary'', JObj [(''positiveStock'', JNum (Fin 0)),
                               (''negativeStock'', JNum (Fin 0)), (''zeroStock'', JNum (Fin 0))])]"
  by (simp add: stockSummaryOf_def js_count_def)

lemma parseStockSummaryResponse_is_summary:
  "parseStockSummaryResponse t = Inr r \<Longrightarrow> r = stockSummaryOf (elements (field r ''items''))"
  unfolding parseStockSummaryResponse_def
  by (cases "locateTallyMessage t")
     (auto simp: stockSummaryOf_Nil [symmetric] stockSummaryOf_fields elements_def Let_def
        bind_err_def split: option.splits sum.splits)

lemma parseFloat_samples:
  "parseFloat_str ''10'' = Fin 10" "parseFloat_str ''500'' = Fin 500"
  "parseFloat_str ''-2'' = Fin (- 2)" "parseFloat_str ''-100'' = Fin (- 100)"
  "parseFloat_str ''0'' = Fin 0"
  by (simp_all add: parseFloat_str_def parse_unsigned_def is_space_def is_digit_def
      digits_value_def fl_numeral)

lemma stock_summary_tree_parsed:
  "\<exists>r. parseStockSummaryResponse stock_summary_tree = Inr r"
  by (simp add: parseStockSummaryResponse_def stock_summary_tree_def locate_wrap_message
      Let_def js_or_def field_def as_array_def elements_def parseSummaryItem_def
      stock_item_node_def)

text \<open>
  C8, for the stock summary. Every aggregate that \<open>_parseStockSummaryResponse\<close> returns is
  computed from the item sequence it returns: the number of items, the sum of their closing
  values, and the numbers of items with positive, negative and zero closing quantity; two
  responses whose payloads agree on the item tags \<open>STOCKITEMS\<close> and \<open>TALLYMESSAGE\<close>
  give the same result, whatever other tags they carry. The voucher summary is different:
  its totals are the vendor's tags \<open>TOTALCOUNT\<close>, \<open>TOTALAMOUNT\<close> and
  \<open>AVERAGEAMOUNT\<close>, each replaced by \<open>0\<close> when falsy.
\<close>

theorem stock_summary_aggregates:
  "(parseStockSummaryResponse t = Inr r \<longrightarrow>
      (\<exists>items. field r ''items'' = JArr items
         \<and> field r ''totalItems'' = js_count (length items)
         \<and> field r ''totalValue'' =
             JNum (foldl (\<lambda>sum item. js_add sum (number_value (field item ''closingValue'')))
                     (Fin 0) items)
         \<and> field (field r ''summary'') ''positiveStock'' =
             js_count (length (filter (\<lambda>item. js_gt (closingQuantity item) (Fin 0)) items))
         \<and> field (field r ''summary'') ''negativeStock'' =
             js_count (length (filter (\<lambda>item. js_lt (closingQuantity item) (Fin 0)) items))
         \<and> field (field r ''summary'') ''zeroStock'' =
             js_count (length (filter (\<lambda>item. closingQuantity item = Fin 0) items))))
   \<and> (locateTallyMessage t = Inr (Some m) \<and> locateTallyMessage t' = Inr (Some m')
        \<and> field (js_or m (JObj [])) ''STOCKITEMS'' = field (js_or m' (JObj [])) ''STOCKITEMS''
        \<and> field (js_or m (JObj [])) ''TALLYMESSAGE'' = field (js_or m' (JObj [])) ''TALLYMESSAGE''
        \<longrightarrow> parseStockSummaryResponse t = parseStockSummaryResponse t')
   \<and> (locateTallyMessage t = Inr (Some m) \<longrightarrow>
        parseVoucherSummaryResponse t groupByType =
          Inr (if truthy groupByType then
                 JObj [(''byType'', groupVouchersByType (js_or m (JObj []))),
                       (''total'', JObj
                          [(''count'', or_zero (field (js_or m (JObj [])) ''TOTALCOUNT'')),
                           (''amount'', or_zero (field (js_or m (JObj [])) ''TOTALAMOUNT''))])]
               else
                 JObj [(''totalCount'', or_zero (field (js_or m (JObj [])) ''TOTALCOUNT'')),
                       (''totalAmount'', or_zero (field (js_or m (JObj [])) ''TOTALAMOUNT'')),
                       (''averageAmount'',
                          or_zero (field (js_or m (JObj [])) ''AVERAGEAMOUNT''))]))"
proof (intro conjI impI; (elim conjE)?)
  assume "parseStockSummaryResponse t = Inr r"
  then have "r = stockSummaryOf (elements (field r ''items''))"
    by (rule parseStockSummaryResponse_is_summary)
  then show "\<exists>items. field r ''items'' = JArr items
         \<and> field r ''totalItems'' = js_count (length items)
         \<and> field r ''totalValue'' =
             JNum (foldl (\<lambda>sum item. js_add sum (number_value (field item ''closingValue'')))
                     (Fin 0) items)
         \<and> field (field r ''summary'') ''positiveStock'' =
             js_count (length (filter (\<lambda>item. js_gt (closingQuantity item) (Fin 0)) items))
         \<and> field (field r ''summary'') ''negativeStock'' =
             js_count (length (filter (\<lambda>item. js_lt (closingQuantity item) (Fin 0)) items))
         \<and> field (field r ''summary'') ''zeroStock'' =
             js_count (length (filter (\<lambda>item. closingQuantity item = Fin 0) items))"
    using stockSummaryOf_fields [of "elements (field r ''items'')"] by metis
next
  assume "locateTallyMessage t = Inr (Some m)" "locateTallyMessage t' = Inr (Some m')"
    "field (js_or m (JObj [])) ''STOCKITEMS'' = field (js_or m' (JObj [])) ''STOCKITEMS''"
    "field (js_or m (JObj [])) ''TALLYMESSAGE'' = field (js_or m' (JObj [])) ''TALLYMESSAGE''"
  then show "parseStockSummaryResponse t = parseStockSummaryResponse t'"
    by (simp add: parseStockSummaryResponse_def Let_def)
next
  assume "locateTallyMessage t = Inr (Some m)"
  then show "parseVoucherSummaryResponse t groupByType =
          Inr (if truthy groupByType then
                 JObj [(''byType'', groupVouchersByType (js_or m (JObj []))),
                       (''total'', JObj
                          [(''count'', or_zero (field (js_or m (JObj [])) ''TOTALCOUNT'')),
                           (''amount'', or_zero (field (js_or m (JObj [])) ''TOTALAMOUNT''))])]
               else
                 JObj [(''totalCount'', or_zero (field (js_or m (JObj [])) ''TOTALCOUNT'')),
                       (''totalAmount'', or_zero (field (js_or m (JObj [])) ''TOTALAMOUNT'')),
                       (''averageAmount'',
                          or_zero (field (js_or m (JObj [])) ''AVERAGEAMOUNT''))])"
    by (simp add: parseVoucherSummaryResponse_def Let_def)
qed

text \<open>Three items worth 500, -100 and 0: the total is 400 and each count is 1, although the
  response carries a vendor total of 999.\<close>

theorem stock_summary_aggregates_witness:
  "\<exists>r. parseStockSummaryResponse stock_summary_tree = Inr r
     \<and> field r ''totalItems'' = JNum (Fin 3)
     \<and> field r ''totalValue'' = JNum (Fin 400)
     \<and> field (field r ''summary'') ''positiveStock'' = JNum (Fin 1)
     \<and> field (field r ''summary'') ''negativeStock'' = JNum (Fin 1)
     \<and> field (field r ''summary'') ''zeroStock'' = JNum (Fin 1)"
proof -
  obtain r where r: "parseStockSummaryResponse stock_summary_tree = Inr r"
    using stock_summary_tree_parsed by blast
  have items: "field r ''items'' =
      JArr [JObj [(''name'', JStr ''Widget A''), (''group'', JStr []),
                  (''closingQuantity'', JNum (Fin 10)), (''closingValue'', JNum (Fin 500)),
                  (''rate'', JNum (Fin 0)), (''baseUnits'', JStr [])],
            JObj [(''name'', JStr ''Widget B''), (''group'', JStr []),
                  (''closingQuantity'', JNum (Fin (- 2))), (''closingValue'', JNum (Fin (- 100))),
                  (''rate'', JNum (Fin 0)), (''baseUnits'', JStr [])],
            JObj [(''name'', JStr ''Widget C''), (''group'', JStr []),
                  (''closingQuantity'', JNum (Fin 0)), (''closingValue'', JNum (Fin 0)),
                  (''rate'', JNum (Fin 0)), (''baseUnits'', JStr [])]]"
    using r
    by (auto simp: parseStockSummaryResponse_def stock_summary_tree_def locate_wrap_message
        Let_def js_or_def field_def as_array_def elements_def parseSummaryItem_def
        stock_item_node_def parseFloat_or_0_def parseFloat_samples or_empty_def
        stockSummaryOf_def)
  from stock_summary_aggregates [of stock_summary_tree r, THEN conjunct1, THEN mp, OF r] items
  have "field r ''totalItems'' = JNum (Fin 3)
     \<and> field r ''totalValue'' = JNum (Fin 400)
     \<and> field (field r ''summary'') ''positiveStock'' = JNum (Fin 1)
     \<and> field (field r ''summary'') ''negativeStock'' = JNum (Fin 1)
     \<and> field (field r ''summary'') ''zeroStock'' = JNum (Fin 1)"
    by (auto simp: field_def number_value_def closingQuantity_def js_count_def js_lt_def
        fl_numeral)
  with r show ?thesis by blast
qed

text \<open>A voucher summary without a single voucher in it, but with the vendor's totals: the
  interpreter hands the vendor's texts on.\<close>

theorem voucher_summary_counterexample:
  "parseVoucherSummaryResponse voucher_summary_tree JUndefined =
     Inr (JObj [(''totalCount'', JStr ''7''), (''totalAmount'', JStr ''1234''),
                (''averageAmount'', JNum (Fin 0))])"
  by (simp add: parseVoucherSummaryResponse_def voucher_summary_tree_def locate_wrap_message
      Let_def js_or_def or_zero_def field_def)

section \<open>The environment variable in buildImportRequest\<close>




section \<open>Updates\<close>

text \<open>
  C10. In each of the three update operations, a field of \<open>updates\<close> that is falsy (the
  empty string, \<open>undefined\<close>, \<open>null\<close>, \<open>0\<close>, \<open>false\<close>) leaves the merged payload
  with the value of that field in the fetched data: an update cannot set \<open>alias\<close> or
  \<open>narration\<close> to the empty string.
\<close>

theorem update_keeps_value_for_falsy_field:
  "(\<forall>p. get updates ''parent'' = Inr p \<longrightarrow>
      (\<exists>merged. updatedLedgerData ledgerName updates current = Inr merged
         \<and> (\<forall>k \<in> {''parent'', ''alias'', ''openingBalance''}.
               \<not> truthy (field updates k) \<longrightarrow> field merged k = field current k)))
   \<and> (\<forall>p. get updates ''parent'' = Inr p \<longrightarrow>
      (\<exists>merged. updatedStockData stockItemName updates current = Inr merged
         \<and> (\<forall>k \<in> {''parent'', ''baseUnits'', ''alias'', ''openingBalance''}.
               \<not> truthy (field updates k) \<longrightarrow> field merged k = field current k)))
   \<and> (\<forall>d. get updates ''date'' = Inr d \<longrightarrow>
      (\<exists>merged. updatedVoucherData voucherNumber voucherType updates current = Inr merged
         \<and> (\<forall>k \<in> {''date'', ''narration'', ''ledgerEntries''}.
               \<not> truthy (field updates k) \<longrightarrow> field merged k = field current k)))"
  by (auto simp: updatedLedgerData_def updatedStockData_def updatedVoucherData_def
      js_or_def field_def)

text \<open>\<open>updateLedger('ABC Corporation', { alias: '' })\<close> keeps the alias \<open>ABC Corp\<close>.\<close>

theorem update_keeps_value_for_falsy_field_witness:
  "\<exists>merged. updatedLedgerData (JStr ''ABC Corporation'') (JObj [(''alias'', JStr [])])
       sample_ledger = Inr merged \<and> field merged ''alias'' = JStr ''ABC Corp''"
  using update_keeps_value_for_falsy_field [of "JObj [(''alias'', JStr [])]"
      "JStr ''ABC Corporation''" sample_ledger JUndefined JUndefined JUndefined,
      THEN conjunct1]
  by (auto simp: sample_ledger_def field_def)

section \<open>The action directive of an update\<close>

lemma has_pair_prefix: "prefix p s \<Longrightarrow> has_pair a b p \<Longrightarrow> has_pair a b s"
proof (induction a b p arbitrary: s rule: has_pair.induct)
  case (1 a b x y zs)
  then obtain s' where s: "s = x # y # s'" by (auto simp: prefix_def)
  with 1 show ?case by auto
qed auto

lemma has_pair_Cons: "has_pair a b cs \<Longrightarrow> has_pair a b (c # cs)"
  by (cases cs) auto

lemma has_pair_append_left: "has_pair a b ys \<Longrightarrow> has_pair a b (xs @ ys)"
  by (induction xs) (auto intro: has_pair_Cons)

lemma has_pair_sublist: "sublist p s \<Longrightarrow> has_pair a b p \<Longrightarrow> has_pair a b s"
  unfolding sublist_def
  using has_pair_append_left has_pair_prefix prefixI by blast

lemma replaceFirst_absent:
  "has_pair a b pat \<Longrightarrow> \<not> has_pair a b s \<Longrightarrow> replaceFirst pat r s = s"
proof (induction s)
  case Nil
  then show ?case by (cases pat) auto
next
  case (Cons c cs)
  from Cons.prems have "\<not> prefix pat (c # cs)" using has_pair_prefix by blast
  moreover from Cons.prems have "\<not> has_pair a b cs" using has_pair_Cons by blast
  ultimately show ?case using Cons by simp
qed

text \<open>
  Where the entity XML does carry the directive, the update substitutes it. A voucher
  whose type is a string and a ledger (built by the builder of the connector file) whose
  name is a string start with the head, the escaped text, a closing quote and
  \<open>ACTION="Create"\<close>; the escaped text holds no quote, so the first occurrence of the
  directive is that one, and the update XML is the create XML with \<open>ACTION="Alter"\<close>
  in its place.
\<close>

lemma prefix_nth: "prefix p xs \<Longrightarrow> i < length p \<Longrightarrow> xs ! i = p ! i"
  by (auto simp: prefix_def nth_append)

lemma escape_char_no_quote: "CHR 0x22 \<notin> set (escape_char c)"
  by (simp add: escape_char_def)

lemma escaped_no_quote: "CHR 0x22 \<notin> set (concat (map escape_char s))"
  by (induction s) (simp_all add: escape_char_no_quote)

lemma no_directive_in_unquoted:
  assumes q: "CHR 0x22 \<notin> set n" and ne: "n \<noteq> []"
  shows "\<not> prefix actionCreate (n @ CHR 0x22 # CHR '' '' # actionCreate @ after)"
proof
  let ?S = "CHR 0x22 # CHR '' '' # actionCreate @ after"
  assume p: "prefix actionCreate (n @ ?S)"
  have p7: "(n @ ?S) ! 7 = CHR 0x22"
    using prefix_nth [OF p, of 7] by (simp add: actionCreate_def)
  have p8: "(n @ ?S) ! 8 = CHR ''C''"
    using prefix_nth [OF p, of 8] by (simp add: actionCreate_def)
  consider "7 < length n" | "length n = 7" | "length n < 7" by linarith
  then show False
  proof cases
    case 1
    then have "(n @ ?S) ! 7 = n ! 7" by (simp add: nth_append)
    with p7 1 q show False by (metis nth_mem)
  next
    case 2
    then have "(n @ ?S) ! 8 = ?S ! 1" by (simp add: nth_append)
    with p8 show False by simp
  next
    case 3
    with ne have k: "7 - length n \<in> {1, 2, 3, 4, 5, 6}"
      by (cases n) auto
    from 3 have "(n @ ?S) ! 7 = ?S ! (7 - length n)" by (simp add: nth_append)
    with p7 have "?S ! (7 - length n) = CHR 0x22" by simp
    with k show False by (auto simp: actionCreate_def)
  qed
qed

lemma replaceFirst_through_unquoted:
  assumes "CHR 0x22 \<notin> set n"
  shows "replaceFirst actionCreate r (n @ CHR 0x22 # CHR '' '' # actionCreate @ after)
     = n @ CHR 0x22 # CHR '' '' # r @ after"
  using assms
proof (induction n)
  case Nil
  show ?case by (simp add: actionCreate_def)
next
  case (Cons c n)
  have "\<not> prefix actionCreate ((c # n) @ CHR 0x22 # CHR '' '' # actionCreate @ after)"
    using Cons.prems by (intro no_directive_in_unquoted) simp_all
  with Cons show ?case by simp
qed

lemma replaceFirst_voucherHead:
  "replaceFirst actionCreate r (voucherHead @ rest) = voucherHead @ replaceFirst actionCreate r rest"
  by (simp add: voucherHead_def actionCreate_def)

lemma replaceFirst_ledgerHead:
  "replaceFirst actionCreate r (ledgerHead @ rest) = ledgerHead @ replaceFirst actionCreate r rest"
  by (simp add: ledgerHead_def actionCreate_def)

lemma voucherTemplate_shape:
  "\<exists>after. voucherTemplate a b c d e = voucherHead @ a @ CHR 0x22 # CHR '' '' # actionCreate @ after"
  by (simp add: voucherTemplate_def voucherHead_def actionCreate_def)

lemma ledgerTemplate2_shape:
  "\<exists>after. ledgerTemplate2 a b c d e = ledgerHead @ a @ CHR 0x22 # CHR '' '' # actionCreate @ after"
  by (simp add: ledgerTemplate2_def ledgerHead_def actionCreate_def)

lemma substitute_after_head:
  assumes "CHR 0x22 \<notin> set n"
    and "\<And>rest. replaceFirst actionCreate actionAlter (h @ rest) = h @ replaceFirst actionCreate actionAlter rest"
    and "xml = h @ n @ CHR 0x22 # CHR '' '' # actionCreate @ after"
  shows "replaceFirst actionCreate actionAlter xml = h @ n @ CHR 0x22 # CHR '' '' # actionAlter @ after"
  using assms(1) by (simp add: assms(2,3) replaceFirst_through_unquoted)

lemma escapeXml_text: "toStringJS ns (escapeXml (JStr t)) = concat (map escape_char t)"
  by (simp add: escape_single_pass)

lemma voucher_update_substitutes:
  assumes t: "get v ''voucherType'' = Inr (JStr t)"
    and b: "buildVoucherXml eng v = Inr xml"
  shows "\<exists>after. xml = voucherHead @ concat (map escape_char t) @ CHR 0x22 # CHR '' ''
                   # actionCreate @ after
     \<and> voucherUpdateXml eng v =
         Inr (voucherHead @ concat (map escape_char t) @ CHR 0x22 # CHR '' ''
                # actionAlter @ after)"
proof -
  obtain xs where xs: "array_map ''ledgerEntries'' (ledgerEntryXml eng) (field v ''ledgerEntries'') = Inr xs"
    using t b by (cases "array_map ''ledgerEntries'' (ledgerEntryXml eng) (field v ''ledgerEntries'')")
      (simp_all add: buildVoucherXml_def Let_def)
  from t b xs obtain d n r l where "xml = voucherTemplate (concat (map escape_char t)) d n r l"
    by (auto simp: buildVoucherXml_def Let_def escapeXml_text simp del: escapeXml.simps)
  then obtain after where
    x: "xml = voucherHead @ concat (map escape_char t) @ CHR 0x22 # CHR '' '' # actionCreate @ after"
    using voucherTemplate_shape by metis
  have "replaceFirst actionCreate actionAlter xml
      = voucherHead @ concat (map escape_char t) @ CHR 0x22 # CHR '' '' # actionAlter @ after"
    using escaped_no_quote replaceFirst_voucherHead x by (rule substitute_after_head)
  with x b show ?thesis by (auto simp: voucherUpdateXml_def)
qed

lemma ledger_update_substitutes:
  assumes t: "get l ''name'' = Inr (JStr t)"
    and b: "buildLedgerXml2 ns l = Inr xml"
  shows "\<exists>after. xml = ledgerHead @ concat (map escape_char t) @ CHR 0x22 # CHR '' ''
                   # actionCreate @ after
     \<and> ledgerUpdateXml ns l =
         Inr (ledgerHead @ concat (map escape_char t) @ CHR 0x22 # CHR '' ''
                # actionAlter @ after)"
proof -
  from t b obtain p a f ob where "xml = ledgerTemplate2 (concat (map escape_char t)) p a f ob"
    by (auto simp: buildLedgerXml2_def Let_def escapeXml_text simp del: escapeXml.simps)
  then obtain after where
    x: "xml = ledgerHead @ concat (map escape_char t) @ CHR 0x22 # CHR '' '' # actionCreate @ after"
    using ledgerTemplate2_shape by metis
  have "replaceFirst actionCreate actionAlter xml
      = ledgerHead @ concat (map escape_char t) @ CHR 0x22 # CHR '' '' # actionAlter @ after"
    using escaped_no_quote replaceFirst_ledgerHead x by (rule substitute_after_head)
  with x b show ?thesis by (auto simp: ledgerUpdateXml_def)
qed

text \<open>
  The stock item builder emits no directive at all; on the merged item of the sample the
  XML has no \<open>N=\<close> anywhere.
\<close>

lemma merged_stock_item_xml:
  "\<exists>x. buildStockItemXml showNum merged_stock_item = Inr x
     \<and> \<not> has_pair (CHR ''N'') (CHR ''='') x"
  by (simp add: buildStockItemXml_def stockItemTemplate_def merged_stock_item_def field_def
      Let_def js_or_def showRat_def showNat.simps digit_char_values
      stockOpeningBalanceXml_def replaceAllChar_def)

text \<open>
  C7 at \<open>updateStockItem('Widget A', { alias: 'Widget-A-v2' })\<close>. The payload is merged
  from the fetched item; \<open>buildStockItemXml\<close> emits a \<open>STOCKITEM\<close> element without any
  \<open>ACTION\<close> attribute, so replacing \<open>ACTION="Create"\<close> finds nothing: the string passed
  to the import request is the create XML itself, and \<open>ACTION="Alter"\<close> does not occur
  in it.
\<close>

theorem stock_update_has_no_alter_directive:
  "updatedStockData (JStr ''Widget A'') (JObj [(''alias'', JStr ''Widget-A-v2'')])
       fetched_stock_item = Inr merged_stock_item
   \<and> (\<exists>x. buildStockItemXml showNum merged_stock_item = Inr x
         \<and> stockItemUpdateXml showNum merged_stock_item = Inr x
         \<and> \<not> sublist actionAlter x)"
proof
  show "updatedStockData (JStr ''Widget A'') (JObj [(''alias'', JStr ''Widget-A-v2'')])
       fetched_stock_item = Inr merged_stock_item"
    by (simp add: updatedStockData_def fetched_stock_item_def merged_stock_item_def
        js_or_def field_def)
next
  obtain x where x: "buildStockItemXml showNum merged_stock_item = Inr x"
    and n: "\<not> has_pair (CHR ''N'') (CHR ''='') x"
    using merged_stock_item_xml by blast
  have "has_pair (CHR ''N'') (CHR ''='') actionCreate"
    by (simp add: actionCreate_def)
  then have "replaceFirst actionCreate actionAlter x = x"
    using n by (rule replaceFirst_absent)
  then have u: "stockItemUpdateXml showNum merged_stock_item = Inr x"
    using x by (simp add: stockItemUpdateXml_def)
  have "has_pair (CHR ''N'') (CHR ''='') actionAlter"
    by (simp add: actionAlter_def)
  then have "\<not> sublist actionAlter x"
    using n has_pair_sublist by blast
  with x u show "\<exists>x. buildStockItemXml showNum merged_stock_item = Inr x
         \<and> stockItemUpdateXml showNum merged_stock_item = Inr x
         \<and> \<not> sublist actionAlter x"
    by blast
qed


end
